theory Spec2Isabelle
  imports Complex_Main "HOL-Library.Word" "HOL-Library.Log_Nat"
begin

section \<open>WeatherFlow: the weather data acquisition and resilience layer\<close>

text \<open>
  A shallow embedding of \<^verbatim>\<open>src/lib/storage.ts\<close>, \<^verbatim>\<open>src/lib/api.ts\<close> and the
  query wiring of the home page (\<^verbatim>\<open>app/page.tsx\<close>).  JavaScript numbers that hold
  measurements are \<open>real\<close> (the value of the double; arithmetic on them rounds, see
  \<open>to_double\<close>), codes and epoch times are \<open>int\<close>, a thrown exception is the
  \<open>Inl\<close> branch of a sum, and the browser's \<^verbatim>\<open>localStorage\<close> is an explicit state
  that every storage helper takes and returns.
\<close>

subsection \<open>JavaScript values shared by the modules\<close>

text \<open>
  The value of a property read off a thrown object, as far as \<^verbatim>\<open>typeof x === 'number'\<close>
  and the comparisons \<^verbatim>\<open>>=\<close>, \<^verbatim>\<open><\<close> can tell: a number, the number \<^verbatim>\<open>NaN\<close> (for
  which every comparison is false), or a value of another type.
\<close>

datatype js_value = JSNumber real | JSNaN | JSNotNumber

text \<open>
  A thrown object: its \<^verbatim>\<open>name\<close>, its \<^verbatim>\<open>message\<close>, and its \<^verbatim>\<open>status\<close> property when
  it has one (\<open>None\<close> when \<^verbatim>\<open>'status' in error\<close> is false).
\<close>

datatype js_error = JsError (err_name: string) (message: string) (status_prop: "js_value option")

text \<open>\<^verbatim>\<open>new Error(msg)\<close>: an object with a message and no \<^verbatim>\<open>status\<close> property.\<close>

definition new_Error :: "string \<Rightarrow> js_error" where
  "new_Error msg = JsError ''Error'' msg None"

definition new_SyntaxError :: "string \<Rightarrow> js_error" where
  "new_SyntaxError msg = JsError ''SyntaxError'' msg None"

definition new_TypeError :: "string \<Rightarrow> js_error" where
  "new_TypeError msg = JsError ''TypeError'' msg None"

definition new_URIError :: "string \<Rightarrow> js_error" where
  "new_URIError msg = JsError ''URIError'' msg None"

text \<open>
  \<^verbatim>\<open>try { body } catch { handler }\<close>: the handler runs exactly when the body throws.
\<close>

definition try_catch :: "(js_error + 'a) \<Rightarrow> (js_error \<Rightarrow> js_error + 'a) \<Rightarrow> js_error + 'a" where
  "try_catch body handler = (case body of Inl e \<Rightarrow> handler e | Inr v \<Rightarrow> Inr v)"

text \<open>The type \<^verbatim>\<open>Units = 'metric' | 'imperial'\<close>.\<close>

datatype units = Metric | Imperial

text \<open>
  An ISO-8601 text as \<^verbatim>\<open>new Date(text).getTime()\<close> reads it: the instant in
  milliseconds since the epoch, or not a date (\<^verbatim>\<open>getTime()\<close> is \<^verbatim>\<open>NaN\<close>).
  \<^verbatim>\<open>new Date().toISOString()\<close> at the instant \<open>now\<close> is \<open>IsoString now\<close>.
\<close>

datatype iso_string = IsoString int | NotADate

subsection \<open>Weather records (the fields the code reads and writes)\<close>

record weather_condition =
  wc_id :: "int option"
  wc_main :: string
  wc_description :: string
  wc_icon :: string

record daily_temp =
  temp_min :: "real option"
  temp_max :: "real option"

record daily_forecast =
  df_dt :: "int option"
  df_temp :: daily_temp
  df_weather :: "weather_condition list"

record hourly_data =
  hd_time :: string
  hd_temperature :: real

text \<open>
  \<^verbatim>\<open>Forecast\<close>, with the two properties the offline fallback adds: \<^verbatim>\<open>_cached\<close> and
  \<^verbatim>\<open>_cachedAt\<close> (\<open>None\<close> when the property is absent).
\<close>

record forecast =
  timezone_offset :: int
  daily :: "daily_forecast list"
  hourly :: "hourly_data list"
  cached :: "bool option"
  cachedAt :: "iso_string option"

subsection \<open>storage.ts: the local storage helpers\<close>

text \<open>
  The text held under a key of \<^verbatim>\<open>localStorage\<close>: either \<^verbatim>\<open>JSON.stringify\<close> of a value,
  or a text that \<^verbatim>\<open>JSON.parse\<close> rejects (the empty text included, which the helper
  treats as missing before parsing).
\<close>

datatype 'v item = Malformed | Json 'v

text \<open>
  The persistence medium.  \<open>window_defined\<close> is \<^verbatim>\<open>typeof window !== 'undefined'\<close>;
  each of the three \<^verbatim>\<open>localStorage\<close> methods may throw (a privacy mode, a full quota),
  in which case it leaves the items as they are.
\<close>

record 'v browser =
  window_defined :: bool
  getItem_throws :: "js_error option"
  setItem_throws :: "js_error option"
  removeItem_throws :: "js_error option"
  items :: "string \<rightharpoonup> 'v item"

definition localStorage_getItem :: "'v browser \<Rightarrow> string \<Rightarrow> js_error + 'v item option" where
  "localStorage_getItem b key =
     (case getItem_throws b of Some e \<Rightarrow> Inl e | None \<Rightarrow> Inr (items b key))"

definition localStorage_setItem :: "'v browser \<Rightarrow> string \<Rightarrow> 'v item \<Rightarrow> js_error + 'v browser" where
  "localStorage_setItem b key v =
     (case setItem_throws b of Some e \<Rightarrow> Inl e
      | None \<Rightarrow> Inr (b\<lparr>items := (items b)(key \<mapsto> v)\<rparr>))"

definition localStorage_removeItem :: "'v browser \<Rightarrow> string \<Rightarrow> js_error + 'v browser" where
  "localStorage_removeItem b key =
     (case removeItem_throws b of Some e \<Rightarrow> Inl e
      | None \<Rightarrow> Inr (b\<lparr>items := (items b)(key := None)\<rparr>))"

definition JSON_parse :: "'v item \<Rightarrow> js_error + 'v" where
  "JSON_parse it =
     (case it of Malformed \<Rightarrow> Inl (new_SyntaxError ''Unexpected token'') | Json v \<Rightarrow> Inr v)"

definition JSON_stringify :: "'v \<Rightarrow> 'v item" where
  "JSON_stringify v = Json v"

text \<open>\<^verbatim>\<open>getJSON\<close>: \<open>None\<close> is the \<^verbatim>\<open>null\<close> it returns.\<close>

definition getJSON :: "'v browser \<Rightarrow> string \<Rightarrow> js_error + 'v option" where
  "getJSON b key =
     try_catch
       (if \<not> window_defined b then Inr None
        else case localStorage_getItem b key of
               Inl e \<Rightarrow> Inl e
             | Inr None \<Rightarrow> Inr None
             | Inr (Some it) \<Rightarrow>
                 (case JSON_parse it of Inl e \<Rightarrow> Inl e | Inr v \<Rightarrow> Inr (Some v)))
       (\<lambda>_. Inr None)"

text \<open>
  \<^verbatim>\<open>setJSON\<close> and \<^verbatim>\<open>removeKey\<close> return nothing; the model returns the medium as they
  leave it.
\<close>

definition setJSON :: "'v browser \<Rightarrow> string \<Rightarrow> 'v \<Rightarrow> js_error + 'v browser" where
  "setJSON b key v =
     try_catch
       (if \<not> window_defined b then Inr b
        else localStorage_setItem b key (JSON_stringify v))
       (\<lambda>_. Inr b)"

definition removeKey :: "'v browser \<Rightarrow> string \<Rightarrow> js_error + 'v browser" where
  "removeKey b key =
     try_catch
       (if \<not> window_defined b then Inr b
        else localStorage_removeItem b key)
       (\<lambda>_. Inr b)"

record forecast_snapshot =
  snap_data :: forecast
  snap_timestamp :: iso_string
  snap_city :: string
  snap_units :: units

definition SNAPSHOT_KEY :: string where
  "SNAPSHOT_KEY = ''weatherflow:forecast-snapshot''"

text \<open>\<open>now\<close> is the clock that \<^verbatim>\<open>new Date()\<close> reads, in milliseconds.\<close>

definition saveSnapshot ::
  "forecast_snapshot browser \<Rightarrow> int \<Rightarrow> forecast \<Rightarrow> string \<Rightarrow> units
     \<Rightarrow> js_error + forecast_snapshot browser" where
  "saveSnapshot b now d city u =
     try_catch
       (if \<not> window_defined b then Inr b
        else setJSON b SNAPSHOT_KEY
               \<lparr>snap_data = d, snap_timestamp = IsoString now, snap_city = city, snap_units = u\<rparr>)
       (\<lambda>_. Inr b)"

definition getSnapshot :: "forecast_snapshot browser \<Rightarrow> js_error + forecast_snapshot option" where
  "getSnapshot b =
     try_catch
       (if \<not> window_defined b then Inr None
        else getJSON b SNAPSHOT_KEY)
       (\<lambda>_. Inr None)"

definition clearSnapshot :: "forecast_snapshot browser \<Rightarrow> js_error + forecast_snapshot browser" where
  "clearSnapshot b =
     try_catch
       (if \<not> window_defined b then Inr b
        else removeKey b SNAPSHOT_KEY)
       (\<lambda>_. Inr b)"

definition twentyFourHours :: int where
  "twentyFourHours = 24 * 60 * 60 * 1000"

text \<open>
  \<^verbatim>\<open>isSnapshotRecent\<close>: \<^verbatim>\<open>(now - snapshotTime) < twentyFourHours\<close>, false when the
  timestamp is not a date (the difference is \<^verbatim>\<open>NaN\<close>).
\<close>

definition isSnapshotRecent :: "forecast_snapshot \<Rightarrow> int \<Rightarrow> bool" where
  "isSnapshotRecent snapshot now =
     (case snap_timestamp snapshot of
        IsoString snapshotTime \<Rightarrow> now - snapshotTime < twentyFourHours
      | NotADate \<Rightarrow> False)"

subsection \<open>Text helpers\<close>

text \<open>
  The decimal text of an integer, as a template literal \<^verbatim>\<open>`${n}`\<close> renders it.
\<close>

definition digit_char :: "nat \<Rightarrow> char" where
  "digit_char d = ''0123456789'' ! d"

function string_of_nat :: "nat \<Rightarrow> string" where
  "string_of_nat n =
     (if n < 10 then [digit_char n]
      else string_of_nat (n div 10) @ [digit_char (n mod 10)])"
  by pat_completeness auto
termination
  by (relation "measure id") auto

declare string_of_nat.simps [simp del]

definition string_of_int :: "int \<Rightarrow> string" where
  "string_of_int i =
     (if i < 0 then CHR ''-'' # string_of_nat (nat (- i)) else string_of_nat (nat i))"

text \<open>
  A JavaScript string as its UTF-16 code units, for the one place where the code looks
  at characters (\<^verbatim>\<open>query.trim()\<close>).
\<close>

type_synonym js_string = "16 word list"

text \<open>
  The code units \<^verbatim>\<open>String.prototype.trim\<close> strips: ECMAScript's WhiteSpace and
  LineTerminator.
\<close>

definition isWhiteSpace :: "16 word \<Rightarrow> bool" where
  "isWhiteSpace c =
     (c = 0x0009 \<or> c = 0x000A \<or> c = 0x000B \<or> c = 0x000C \<or> c = 0x000D \<or> c = 0x0020
      \<or> c = 0x00A0 \<or> c = 0x1680 \<or> (0x2000 \<le> c \<and> c \<le> 0x200A)
      \<or> c = 0x2028 \<or> c = 0x2029 \<or> c = 0x202F \<or> c = 0x205F \<or> c = 0x3000 \<or> c = 0xFEFF)"

definition trim :: "js_string \<Rightarrow> js_string" where
  "trim s = rev (dropWhile isWhiteSpace (rev (dropWhile isWhiteSpace s)))"

text \<open>
  \<^verbatim>\<open>encodeURIComponent\<close> throws a \<^verbatim>\<open>URIError\<close> when the text has a surrogate code unit
  that is not part of a pair (a high one not followed by a low one, or a low one not
  preceded by a high one).  Otherwise it returns the escaped text; the escaping is
  one-to-one, and the model keeps the text itself in its place.
\<close>

definition isHighSurrogate :: "16 word \<Rightarrow> bool" where
  "isHighSurrogate c = (0xD800 \<le> c \<and> c \<le> 0xDBFF)"

definition isLowSurrogate :: "16 word \<Rightarrow> bool" where
  "isLowSurrogate c = (0xDC00 \<le> c \<and> c \<le> 0xDFFF)"

fun wellFormedUnicode :: "js_string \<Rightarrow> bool" where
  "wellFormedUnicode [] = True"
| "wellFormedUnicode [c] = (\<not> isHighSurrogate c \<and> \<not> isLowSurrogate c)"
| "wellFormedUnicode (c # d # cs) =
     (if isHighSurrogate c then isLowSurrogate d \<and> wellFormedUnicode cs
      else if isLowSurrogate c then False
      else wellFormedUnicode (d # cs))"

definition encodeURIComponent :: "js_string \<Rightarrow> js_error + js_string" where
  "encodeURIComponent s =
     (if wellFormedUnicode s then Inr s else Inl (new_URIError ''URI malformed''))"

text \<open>\<^verbatim>\<open>xs[i]\<close> on an array: \<^verbatim>\<open>undefined\<close> (\<open>None\<close>) out of range.\<close>

definition js_index :: "'a list \<Rightarrow> nat \<Rightarrow> 'a option" where
  "js_index xs i = (if i < length xs then Some (xs ! i) else None)"

subsection \<open>api.ts: requests, responses and records\<close>

record geo_point =
  gp_lat :: real
  gp_lon :: real
  gp_name :: "string option"
  gp_country :: "string option"

record geocoding_result =
  gr_latitude :: real
  gr_longitude :: real
  gr_name :: "string option"
  gr_country :: "string option"

text \<open>
  The \<^verbatim>\<open>results\<close> property of a geocoding answer: falsy or absent, a truthy value that
  is not an array, or an array.
\<close>

datatype results_field =
  ResultsAbsent | ResultsNotArray | ResultsArray "geocoding_result list"

text \<open>
  What \<^verbatim>\<open>response.json()\<close> of a geocoding answer resolves to: the JSON value
  \<^verbatim>\<open>null\<close>, on which reading \<^verbatim>\<open>data.results\<close> throws a \<^verbatim>\<open>TypeError\<close>, or any other
  JSON value, of which the code reads the \<^verbatim>\<open>results\<close> property (absent on a number, a
  text, a boolean, an array, and on an object without it).
\<close>

datatype geocoding_body = JsonNull | JsonValue results_field

record om_current =
  cur_time :: iso_string
  temperature_2m :: real
  relative_humidity_2m :: real
  wind_speed_10m :: real
  wind_direction_10m :: real
  weathercode :: int

record om_daily =
  d_time :: "iso_string list"
  d_weathercode :: "int list"
  d_temperature_2m_max :: "real list"
  d_temperature_2m_min :: "real list"

text \<open>
  \<^verbatim>\<open>OpenMeteoForecastResponse\<close>; a block the answer lacks is \<open>None\<close>.
\<close>

record open_meteo_response =
  om_latitude :: real
  om_longitude :: real
  utc_offset_seconds :: int
  current_block :: "om_current option"
  daily_block :: "om_daily option"

record main_block =
  temp :: real
  feels_like :: real
  humidity :: real
  pressure :: real

record wind_block =
  speed :: real
  deg :: real

record current_weather =
  coord :: "real \<times> real"
  cw_dt :: "int option"
  cw_timezone :: int
  cw_name :: string
  cw_weather :: "weather_condition list"
  cw_main :: main_block
  cw_wind :: wind_block

text \<open>
  An HTTP response: its status line and what \<^verbatim>\<open>response.json()\<close> resolves to or
  rejects with.  \<^verbatim>\<open>response.ok\<close> is true exactly for the statuses 200 to 299.
\<close>

record 'b http_response =
  status :: int
  statusText :: string
  json :: "js_error + 'b"

definition ok :: "'b http_response \<Rightarrow> bool" where
  "ok response = (200 \<le> status response \<and> status response \<le> 299)"

text \<open>\<^verbatim>\<open>await fetch(url)\<close>: the promise rejects (no network, abort) or resolves.\<close>

datatype 'b fetch_result = Rejected js_error | Resolved "'b http_response"

text \<open>
  A request is the endpoint and the arguments the URL is built from; the answer of
  each endpoint has the type of its documented body.
\<close>

datatype request =
    GeocodingSearch js_string
  | OpenMeteoCurrent real real units
  | OpenMeteoForecast real real units
  | OpenWeatherCurrent real real units string
  | OpenWeatherOneCall real real units string

record network =
  net_geocoding :: "js_string \<Rightarrow> geocoding_body fetch_result"
  net_open_meteo_current :: "real \<Rightarrow> real \<Rightarrow> units \<Rightarrow> open_meteo_response fetch_result"
  net_open_meteo_forecast :: "real \<Rightarrow> real \<Rightarrow> units \<Rightarrow> open_meteo_response fetch_result"
  net_openweather_current :: "real \<Rightarrow> real \<Rightarrow> units \<Rightarrow> string \<Rightarrow> current_weather fetch_result"
  net_openweather_onecall :: "real \<Rightarrow> real \<Rightarrow> units \<Rightarrow> string \<Rightarrow> forecast fetch_result"

text \<open>
  The provider configuration read from the environment at start:
  \<^verbatim>\<open>PROVIDER = process.env.NEXT_PUBLIC_WEATHER_PROVIDER ?? 'open-meteo'\<close> and
  \<^verbatim>\<open>API_KEY\<close> (\<open>None\<close> when undefined).
\<close>

record config =
  PROVIDER :: string
  API_KEY :: "string option"

definition default_config :: config where
  "default_config = \<lparr>PROVIDER = ''open-meteo'', API_KEY = None\<rparr>"

text \<open>
  What the code calls and this development takes as given: \<^verbatim>\<open>Number.toFixed(2)\<close>, the
  helpers of \<^verbatim>\<open>weatherIconOpenMeteo\<close> (a module that is not among the sources), and
  the floating-point formula of the synthetic hourly series (sine and cosine of the
  clock and the coordinates), as a function of the answer, the clock and the hour index.
\<close>

record host =
  toFixed2 :: "real \<Rightarrow> string"
  isOpenMeteoDayTime :: "int option \<Rightarrow> bool"
  getOpenMeteoWeatherIcon :: "int option \<Rightarrow> bool \<Rightarrow> string"
  getOpenMeteoWeatherDescription :: "int option \<Rightarrow> string"
  hourlyTemperature :: "open_meteo_response \<Rightarrow> int \<Rightarrow> nat \<Rightarrow> real"

text \<open>
  \<^verbatim>\<open>Math.floor(new Date(time).getTime() / 1000)\<close>; \<open>None\<close> is \<^verbatim>\<open>NaN\<close>.
\<close>

definition epoch_seconds :: "iso_string \<Rightarrow> int option" where
  "epoch_seconds t = (case t of IsoString ms \<Rightarrow> Some (ms div 1000) | NotADate \<Rightarrow> None)"

subsection \<open>api.ts: the condition-code table\<close>

definition weatherMap :: "(int \<times> string) list" where
  "weatherMap =
     [(0, ''Clear''),
      (1, ''Clear''), (2, ''Clear''), (3, ''Clear''),
      (45, ''Fog''), (48, ''Fog''),
      (51, ''Drizzle''), (53, ''Drizzle''), (55, ''Drizzle''),
      (56, ''Drizzle''), (57, ''Drizzle''),
      (61, ''Rain''), (63, ''Rain''), (65, ''Rain''),
      (66, ''Rain''), (67, ''Rain''),
      (71, ''Snow''), (73, ''Snow''), (75, ''Snow''),
      (77, ''Snow''),
      (80, ''Rain''), (81, ''Rain''), (82, ''Rain''),
      (85, ''Snow''), (86, ''Snow''),
      (95, ''Thunderstorm''),
      (96, ''Thunderstorm''), (99, ''Thunderstorm'')]"

text \<open>
  \<^verbatim>\<open>weatherMap[code] || 'Unknown'\<close>: the default is taken when the code has no entry
  and also when its entry is falsy (the empty text).
\<close>

definition getWeatherMain :: "int \<Rightarrow> string" where
  "getWeatherMain code =
     (case map_of weatherMap code of
        None \<Rightarrow> ''Unknown''
      | Some s \<Rightarrow> if s = [] then ''Unknown'' else s)"

text \<open>The same lookup when the argument may be \<^verbatim>\<open>undefined\<close> (no entry).\<close>

definition getWeatherMain_undef :: "int option \<Rightarrow> string" where
  "getWeatherMain_undef code = (case code of None \<Rightarrow> ''Unknown'' | Some c \<Rightarrow> getWeatherMain c)"

subsection \<open>api.ts: searchCity\<close>

text \<open>
  Every operation of the module returns its result together with the requests it
  issued, in order.  The URL of the search is built before the fetch, so a query that
  \<^verbatim>\<open>encodeURIComponent\<close> rejects throws with no request issued.
\<close>

definition searchCity :: "network \<Rightarrow> js_string \<Rightarrow> (js_error + geo_point list) \<times> request list" where
  "searchCity net query =
     (if trim query = [] then (Inr [], [])
      else
        (case encodeURIComponent query of
           Inl e \<Rightarrow> (Inl e, [])
         | Inr encoded \<Rightarrow>
             (case net_geocoding net encoded of
                Rejected e \<Rightarrow> Inl e
              | Resolved response \<Rightarrow>
                  if \<not> ok response
                  then Inl (new_Error (''Failed to search cities: '' @ string_of_int (status response)
                                        @ '' '' @ statusText response))
                  else
                    (case json response of
                       Inl e \<Rightarrow> Inl e
                     | Inr JsonNull \<Rightarrow> Inl (new_TypeError ''Cannot read properties of null'')
                     | Inr (JsonValue ResultsAbsent) \<Rightarrow> Inr []
                     | Inr (JsonValue ResultsNotArray) \<Rightarrow> Inr []
                     | Inr (JsonValue (ResultsArray results)) \<Rightarrow>
                         Inr (map (\<lambda>result. \<lparr>gp_lat = gr_latitude result, gp_lon = gr_longitude result,
                                              gp_name = gr_name result, gp_country = gr_country result\<rparr>)
                                  results)),
              [GeocodingSearch encoded])))"

subsection \<open>api.ts: current conditions\<close>

definition getCurrentOpenMeteo ::
  "host \<Rightarrow> network \<Rightarrow> real \<Rightarrow> real \<Rightarrow> units \<Rightarrow> (js_error + current_weather) \<times> request list" where
  "getCurrentOpenMeteo h net lat lon u =
     (case net_open_meteo_current net lat lon u of
        Rejected e \<Rightarrow> Inl e
      | Resolved response \<Rightarrow>
          if \<not> ok response
          then Inl (new_Error (''Failed to fetch current weather: '' @ string_of_int (status response)
                                @ '' '' @ statusText response))
          else
            (case json response of
               Inl e \<Rightarrow> Inl e
             | Inr data \<Rightarrow>
                 (case current_block data of
                    None \<Rightarrow> Inl (new_TypeError ''Cannot read properties of undefined'')
                  | Some current \<Rightarrow>
                      let timestamp = epoch_seconds (cur_time current);
                          isDay = isOpenMeteoDayTime h timestamp;
                          weatherIcon = getOpenMeteoWeatherIcon h (Some (weathercode current)) isDay
                      in Inr \<lparr>coord = (om_latitude data, om_longitude data),
                              cw_dt = timestamp,
                              cw_timezone = utc_offset_seconds data,
                              cw_name = toFixed2 h (om_latitude data) @ '', '' @ toFixed2 h (om_longitude data),
                              cw_weather =
                                [\<lparr>wc_id = Some (weathercode current),
                                  wc_main = getWeatherMain (weathercode current),
                                  wc_description = getOpenMeteoWeatherDescription h (Some (weathercode current)),
                                  wc_icon = weatherIcon\<rparr>],
                              cw_main =
                                \<lparr>temp = temperature_2m current,
                                 feels_like = temperature_2m current,
                                 humidity = relative_humidity_2m current,
                                 pressure = 1013\<rparr>,
                              cw_wind =
                                \<lparr>speed = wind_speed_10m current,
                                 deg = wind_direction_10m current\<rparr>\<rparr>)),
      [OpenMeteoCurrent lat lon u])"

definition getCurrentOpenWeather ::
  "string \<Rightarrow> network \<Rightarrow> real \<Rightarrow> real \<Rightarrow> units \<Rightarrow> (js_error + current_weather) \<times> request list" where
  "getCurrentOpenWeather key net lat lon u =
     (case net_openweather_current net lat lon u key of
        Rejected e \<Rightarrow> Inl e
      | Resolved response \<Rightarrow>
          if \<not> ok response then
            (if status response = 401
             then Inl (new_Error ''Invalid API key. Please check your OpenWeatherMap API key.'')
             else if status response = 404
             then Inl (new_Error ''Weather data not found for this location.'')
             else if status response = 429
             then Inl (new_Error ''API rate limit exceeded. Please try again later.'')
             else Inl (new_Error (''Failed to fetch weather data: '' @ string_of_int (status response)
                                   @ '' '' @ statusText response)))
          else json response,
      [OpenWeatherCurrent lat lon u key])"

text \<open>\<^verbatim>\<open>PROVIDER === 'openweather' && API_KEY\<close>: the key is defined and not empty.\<close>

definition getCurrent ::
  "config \<Rightarrow> host \<Rightarrow> network \<Rightarrow> real \<Rightarrow> real \<Rightarrow> units \<Rightarrow> (js_error + current_weather) \<times> request list" where
  "getCurrent cfg h net lat lon u =
     (if PROVIDER cfg = ''open-meteo'' then getCurrentOpenMeteo h net lat lon u
      else
        (case API_KEY cfg of
           Some key \<Rightarrow>
             if PROVIDER cfg = ''openweather'' \<and> key \<noteq> []
             then getCurrentOpenWeather key net lat lon u
             else (Inl (new_Error (''Unsupported provider or missing key: '' @ PROVIDER cfg)), [])
         | None \<Rightarrow> (Inl (new_Error (''Unsupported provider or missing key: '' @ PROVIDER cfg)), [])))"

subsection \<open>api.ts: the forecast and its offline fallback\<close>

definition dailyEntry :: "host \<Rightarrow> om_daily \<Rightarrow> iso_string \<Rightarrow> nat \<Rightarrow> daily_forecast" where
  "dailyEntry h dly time index =
     (let timestamp = epoch_seconds time;
          isDay = isOpenMeteoDayTime h timestamp;
          code = js_index (d_weathercode dly) index;
          weatherIcon = getOpenMeteoWeatherIcon h code isDay
      in \<lparr>df_dt = timestamp,
          df_temp = \<lparr>temp_min = js_index (d_temperature_2m_min dly) index,
                     temp_max = js_index (d_temperature_2m_max dly) index\<rparr>,
          df_weather =
            [\<lparr>wc_id = code,
              wc_main = getWeatherMain_undef code,
              wc_description = getOpenMeteoWeatherDescription h code,
              wc_icon = weatherIcon\<rparr>]\<rparr>)"

text \<open>\<^verbatim>\<open>Array.from({ length: 24 }, ...)\<close>: 24 points with an empty \<^verbatim>\<open>time\<close>.\<close>

definition buildDeterministicHourly :: "host \<Rightarrow> open_meteo_response \<Rightarrow> int \<Rightarrow> hourly_data list" where
  "buildDeterministicHourly h data now =
     map (\<lambda>i. \<lparr>hd_time = [], hd_temperature = hourlyTemperature h data now i\<rparr>) [0..<24]"

text \<open>
  The conversion of an answer into a \<^verbatim>\<open>Forecast\<close>; reading \<^verbatim>\<open>daily.time\<close> of an
  answer without a daily block throws a \<^verbatim>\<open>TypeError\<close>.
\<close>

definition normalizeForecast :: "host \<Rightarrow> int \<Rightarrow> open_meteo_response \<Rightarrow> js_error + forecast" where
  "normalizeForecast h now data =
     (case daily_block data of
        None \<Rightarrow> Inl (new_TypeError ''Cannot read properties of undefined'')
      | Some dly \<Rightarrow>
          Inr \<lparr>timezone_offset = utc_offset_seconds data,
               daily = map (\<lambda>(time, index). dailyEntry h dly time index)
                           (zip (d_time dly) [0..<length (d_time dly)]),
               hourly = buildDeterministicHourly h data now,
               cached = None,
               cachedAt = None\<rparr>)"

text \<open>
  The body of the \<^verbatim>\<open>try\<close> of the open-meteo branch: fetch, check, convert, save the
  snapshot, return the forecast.  It yields the forecast and the medium after the save.
\<close>

definition forecastTry ::
  "host \<Rightarrow> network \<Rightarrow> forecast_snapshot browser \<Rightarrow> int \<Rightarrow> real \<Rightarrow> real \<Rightarrow> units
     \<Rightarrow> js_error + forecast \<times> forecast_snapshot browser" where
  "forecastTry h net b now lat lon u =
     (case net_open_meteo_forecast net lat lon u of
        Rejected e \<Rightarrow> Inl e
      | Resolved response \<Rightarrow>
          if \<not> ok response
          then Inl (new_Error (''Failed to fetch forecast: '' @ string_of_int (status response)
                                @ '' '' @ statusText response))
          else
            (case json response of
               Inl e \<Rightarrow> Inl e
             | Inr data \<Rightarrow>
                 (case normalizeForecast h now data of
                    Inl e \<Rightarrow> Inl e
                  | Inr fc \<Rightarrow>
                      let cityName = toFixed2 h lat @ '', '' @ toFixed2 h lon
                      in (case saveSnapshot b now fc cityName u of
                            Inl e \<Rightarrow> Inl e
                          | Inr b' \<Rightarrow> Inr (fc, b')))))"

text \<open>
  The \<^verbatim>\<open>catch\<close> of the open-meteo branch: a recent snapshot is returned with
  \<^verbatim>\<open>_cached: true\<close> and \<^verbatim>\<open>_cachedAt\<close>, otherwise the caught error is thrown again.
\<close>

definition forecastCatch :: "forecast_snapshot browser \<Rightarrow> int \<Rightarrow> js_error \<Rightarrow> js_error + forecast" where
  "forecastCatch b now error =
     (case getSnapshot b of
        Inl e \<Rightarrow> Inl e
      | Inr None \<Rightarrow> Inl error
      | Inr (Some snapshot) \<Rightarrow>
          if isSnapshotRecent snapshot now
          then Inr ((snap_data snapshot)\<lparr>cached := Some True,
                                         cachedAt := Some (snap_timestamp snapshot)\<rparr>)
          else Inl error)"

text \<open>
  \<^verbatim>\<open>getForecast\<close>: the result, the medium as the call leaves it, and the requests.
\<close>

definition getForecast ::
  "config \<Rightarrow> host \<Rightarrow> network \<Rightarrow> forecast_snapshot browser \<Rightarrow> int \<Rightarrow> real \<Rightarrow> real \<Rightarrow> units
     \<Rightarrow> (js_error + forecast) \<times> forecast_snapshot browser \<times> request list" where
  "getForecast cfg h net b now lat lon u =
     (if PROVIDER cfg = ''open-meteo'' then
        (case forecastTry h net b now lat lon u of
           Inr (fc, b') \<Rightarrow> (Inr fc, b', [OpenMeteoForecast lat lon u])
         | Inl error \<Rightarrow> (forecastCatch b now error, b, [OpenMeteoForecast lat lon u]))
      else
        (case API_KEY cfg of
           Some key \<Rightarrow>
             if PROVIDER cfg = ''openweather'' \<and> key \<noteq> [] then
               (case net_openweather_onecall net lat lon u key of
                  Rejected e \<Rightarrow> Inl e
                | Resolved response \<Rightarrow>
                    if \<not> ok response
                    then Inl (new_Error (''Failed to fetch forecast: '' @ string_of_int (status response)
                                          @ '' '' @ statusText response))
                    else json response,
                b, [OpenWeatherOneCall lat lon u key])
             else (Inl (new_Error (''Unsupported provider or missing key: '' @ PROVIDER cfg)), b, [])
         | None \<Rightarrow> (Inl (new_Error (''Unsupported provider or missing key: '' @ PROVIDER cfg)), b, [])))"

subsection \<open>page.tsx: retry policy of the two queries\<close>

text \<open>
  The \<^verbatim>\<open>retry\<close> callback, the same for the current-weather and the forecast query:
  \<^verbatim>\<open>'status' in error && typeof error.status === 'number' && error.status >= 400 &&
  error.status < 500\<close> answers no, everything else \<^verbatim>\<open>failureCount < 1\<close>.
\<close>

definition retry :: "nat \<Rightarrow> js_error \<Rightarrow> bool" where
  "retry failureCount error =
     (case status_prop error of
        Some (JSNumber s) \<Rightarrow> if 400 \<le> s \<and> s < 500 then False else failureCount < 1
      | Some JSNaN \<Rightarrow> failureCount < 1
      | Some JSNotNumber \<Rightarrow> failureCount < 1
      | None \<Rightarrow> failureCount < 1)"

text \<open>\<^verbatim>\<open>Math.min(1000 * 2 ** attemptIndex, 30000)\<close>, in milliseconds.\<close>

definition retryDelay :: "nat \<Rightarrow> nat" where
  "retryDelay attemptIndex = min (1000 * 2 ^ attemptIndex) 30000"

text \<open>
  How the query library drives the two callbacks: after a failed attempt it asks
  \<^verbatim>\<open>retry(failureCount, error)\<close> with the number of failures before this one, and on
  yes sleeps \<^verbatim>\<open>retryDelay(failureCount)\<close>, counts the failure and runs the query
  function again.  \<open>queryFn k\<close> is the outcome of the attempt made after \<open>k\<close> failures.
  The run yields the final outcome and the delays slept, one per retry.
\<close>

function runQuery :: "(nat \<Rightarrow> js_error + 'a) \<Rightarrow> nat \<Rightarrow> (js_error + 'a) \<times> nat list" where
  "runQuery queryFn failureCount =
     (case queryFn failureCount of
        Inr v \<Rightarrow> (Inr v, [])
      | Inl error \<Rightarrow>
          if retry failureCount error
          then apsnd ((#) (retryDelay failureCount)) (runQuery queryFn (Suc failureCount))
          else (Inl error, []))"
  by pat_completeness auto
termination
  by (relation "measure (\<lambda>(queryFn, failureCount). 1 - failureCount)")
     (auto simp: retry_def split: option.splits js_value.splits if_splits)

declare runQuery.simps [simp del]

subsection \<open>page.tsx: query keys and handlers of the home page\<close>

text \<open>
  Modelled from the spec: the module \<^verbatim>\<open>lib/queryKeys\<close> (\<^verbatim>\<open>queryKeys.current\<close>,
  \<^verbatim>\<open>queryKeys.forecast\<close>) is not among the sources.  The spec gives the key as
  \<^verbatim>\<open>(operation, lat, lon, canonicalUnits)\<close>; the unit component is the argument the
  caller passes.
\<close>

datatype query_key = QueryKey string real real units | PlainKey string

definition queryKeys_current :: "real \<Rightarrow> real \<Rightarrow> units \<Rightarrow> query_key" where
  "queryKeys_current lat lon u = QueryKey ''current'' lat lon u"

definition queryKeys_forecast :: "real \<Rightarrow> real \<Rightarrow> units \<Rightarrow> query_key" where
  "queryKeys_forecast lat lon u = QueryKey ''forecast'' lat lon u"

text \<open>The unit component of a key, when it has one.\<close>

definition key_units :: "query_key \<Rightarrow> units option" where
  "key_units k = (case k of QueryKey _ _ _ u \<Rightarrow> Some u | PlainKey _ \<Rightarrow> None)"

text \<open>The state of the \<^verbatim>\<open>Home\<close> component that the queries and handlers read.\<close>

record home_state =
  selectedCity :: "geo_point option"
  display_units :: units
  originalCurrentWeather :: "current_weather option"
  originalForecast :: "forecast option"

text \<open>The \<^verbatim>\<open>queryKey\<close> of the two \<^verbatim>\<open>useQuery\<close> calls: lookup and store use it.\<close>

definition currentQueryKey :: "home_state \<Rightarrow> query_key" where
  "currentQueryKey st =
     (case selectedCity st of
        Some city \<Rightarrow> queryKeys_current (gp_lat city) (gp_lon city) Metric
      | None \<Rightarrow> PlainKey ''no-query'')"

definition forecastQueryKey :: "home_state \<Rightarrow> query_key" where
  "forecastQueryKey st =
     (case selectedCity st of
        Some city \<Rightarrow> queryKeys_forecast (gp_lat city) (gp_lon city) Metric
      | None \<Rightarrow> PlainKey ''no-forecast-query'')"

text \<open>
  The two query functions: they fetch in \<^verbatim>\<open>'metric'\<close> whatever the display unit is.
  (\<open>None\<close> is the \<^verbatim>\<open>null\<close> returned without a city or without a window.)
\<close>

definition currentQueryFn ::
  "config \<Rightarrow> host \<Rightarrow> network \<Rightarrow> bool \<Rightarrow> home_state
     \<Rightarrow> (js_error + current_weather option) \<times> request list" where
  "currentQueryFn cfg h net window st =
     (case selectedCity st of
        None \<Rightarrow> (Inr None, [])
      | Some city \<Rightarrow>
          if \<not> window then (Inr None, [])
          else (case getCurrent cfg h net (gp_lat city) (gp_lon city) Metric of
                  (r, reqs) \<Rightarrow> (map_sum id Some r, reqs)))"

definition handleUnitsChange :: "home_state \<Rightarrow> units \<Rightarrow> home_state \<times> request list" where
  "handleUnitsChange st newUnits = (st\<lparr>display_units := newUnits\<rparr>, [])"

text \<open>
  \<^verbatim>\<open>handleRetry\<close>: the keys it hands to \<^verbatim>\<open>queryClient.invalidateQueries\<close>, in order.
\<close>

definition handleRetry :: "home_state \<Rightarrow> query_key list" where
  "handleRetry st =
     (case selectedCity st of
        Some city \<Rightarrow>
          [queryKeys_current (gp_lat city) (gp_lon city) (display_units st),
           queryKeys_forecast (gp_lat city) (gp_lon city) (display_units st)]
      | None \<Rightarrow> [])"

subsection \<open>unitConversion: the converter\<close>

text \<open>
  JavaScript numbers are IEEE 754 doubles, and every arithmetic operation returns the
  double nearest to the exact result, ties going to the even significand.  \<open>to_double\<close>
  is that rounding on the reals: 53 significant bits, the spacing never below
  \<open>2\<^sup>-\<^sup>1\<^sup>0\<^sup>7\<^sup>4\<close> (the subnormal range).  Overflow is outside the model: where JavaScript
  gives \<^verbatim>\<open>Infinity\<close> (a result of magnitude \<open>2\<^sup>1\<^sup>0\<^sup>2\<^sup>4\<close> or more), \<open>to_double\<close> still
  rounds to 53 bits.
\<close>

definition pow2 :: "int \<Rightarrow> real" where
  "pow2 e = (if 0 \<le> e then 2 ^ nat e else 1 / 2 ^ nat (- e))"

text \<open>The exponent of the power of two at or below \<open>\<bar>x\<bar>\<close>, for \<open>x\<close> not zero.\<close>

definition binade :: "real \<Rightarrow> int" where
  "binade x =
     (if 1 \<le> \<bar>x\<bar> then bitlen \<lfloor>\<bar>x\<bar>\<rfloor> - 1
      else - bitlen (\<lceil>1 / \<bar>x\<bar>\<rceil> - 1))"

definition roundTiesToEven :: "real \<Rightarrow> int" where
  "roundTiesToEven y =
     (let f = \<lfloor>y\<rfloor>
      in if y - of_int f < 1 / 2 then f
         else if 1 / 2 < y - of_int f then f + 1
         else if even f then f else f + 1)"

definition to_double :: "real \<Rightarrow> real" where
  "to_double x =
     (if x = 0 then 0
      else let e = max (binade x - 52) (- 1074)
           in of_int (roundTiesToEven (x / pow2 e)) * pow2 e)"

text \<open>
  Modelled from the spec: the module \<^verbatim>\<open>lib/unitConversion\<close> (\<^verbatim>\<open>convertCurrentWeather\<close>,
  \<^verbatim>\<open>convertForecast\<close>) is not among the sources; only its call sites in the home page
  are.  The spec: temperature by \<^verbatim>\<open>F = C * 9/5 + 32\<close> and its inverse, wind speed
  between km/h and mph by a fixed multiplicative constant, pressure unchanged, and a
  conversion to the record's own unit returns an equivalent record.  The formulas are
  taken as the JavaScript expressions \<^verbatim>\<open>c * 9 / 5 + 32\<close> and \<^verbatim>\<open>(f - 32) * 5 / 9\<close>,
  evaluated left to right with a rounding after each operation.  The wind constant's
  value is not given; it is the parameter \<open>k\<close> (mph per km/h), multiplied by in one
  direction and divided by in the other.
\<close>

definition celsiusToFahrenheit :: "real \<Rightarrow> real" where
  "celsiusToFahrenheit c = to_double (to_double (to_double (c * 9) / 5) + 32)"

definition fahrenheitToCelsius :: "real \<Rightarrow> real" where
  "fahrenheitToCelsius f = to_double (to_double (to_double (f - 32) * 5) / 9)"

definition convertTemperature :: "real \<Rightarrow> units \<Rightarrow> units \<Rightarrow> real" where
  "convertTemperature t fromUnits toUnits =
     (if fromUnits = toUnits then t
      else if toUnits = Imperial then celsiusToFahrenheit t
      else fahrenheitToCelsius t)"

definition convertWindSpeed :: "real \<Rightarrow> real \<Rightarrow> units \<Rightarrow> units \<Rightarrow> real" where
  "convertWindSpeed k v fromUnits toUnits =
     (if fromUnits = toUnits then v
      else if toUnits = Imperial then to_double (v * k)
      else to_double (v / k))"

definition convertCurrentWeather :: "real \<Rightarrow> current_weather \<Rightarrow> units \<Rightarrow> units \<Rightarrow> current_weather" where
  "convertCurrentWeather k w fromUnits toUnits =
     w\<lparr>cw_main :=
         (cw_main w)\<lparr>temp := convertTemperature (temp (cw_main w)) fromUnits toUnits,
                     feels_like := convertTemperature (feels_like (cw_main w)) fromUnits toUnits\<rparr>,
       cw_wind :=
         (cw_wind w)\<lparr>speed := convertWindSpeed k (speed (cw_wind w)) fromUnits toUnits\<rparr>\<rparr>"

definition convertDaily :: "daily_forecast \<Rightarrow> units \<Rightarrow> units \<Rightarrow> daily_forecast" where
  "convertDaily d fromUnits toUnits =
     d\<lparr>df_temp :=
         \<lparr>temp_min = map_option (\<lambda>t. convertTemperature t fromUnits toUnits) (temp_min (df_temp d)),
          temp_max = map_option (\<lambda>t. convertTemperature t fromUnits toUnits) (temp_max (df_temp d))\<rparr>\<rparr>"

definition convertForecast :: "forecast \<Rightarrow> units \<Rightarrow> units \<Rightarrow> forecast" where
  "convertForecast fc fromUnits toUnits =
     fc\<lparr>daily := map (\<lambda>d. convertDaily d fromUnits toUnits) (daily fc),
        hourly := map (\<lambda>p. p\<lparr>hd_temperature :=
                                convertTemperature (hd_temperature p) fromUnits toUnits\<rparr>)
                      (hourly fc)\<rparr>"

text \<open>
  The call sites in the home page (from the source): the record shown is the stored
  metric original, converted only when the display unit is not metric.
\<close>

definition convertedCurrentWeather ::
  "real \<Rightarrow> home_state \<Rightarrow> current_weather option \<Rightarrow> current_weather option" where
  "convertedCurrentWeather k st currentWeather =
     (case originalCurrentWeather st of
        None \<Rightarrow> currentWeather
      | Some original \<Rightarrow>
          if display_units st = Metric then Some original
          else Some (convertCurrentWeather k original Metric (display_units st)))"

definition convertedForecastData ::
  "home_state \<Rightarrow> forecast option \<Rightarrow> forecast option" where
  "convertedForecastData st forecastData =
     (case originalForecast st of
        None \<Rightarrow> forecastData
      | Some original \<Rightarrow>
          if display_units st = Metric then Some original
          else Some (convertForecast original Metric (display_units st)))"

text \<open>
  The current-weather query under the retry loop, from no failures, against a network
  that answers every attempt alike.
\<close>

definition runCurrentQuery ::
  "config \<Rightarrow> host \<Rightarrow> network \<Rightarrow> bool \<Rightarrow> home_state
     \<Rightarrow> (js_error + current_weather option) \<times> nat list" where
  "runCurrentQuery cfg h net window st =
     runQuery (\<lambda>_. fst (currentQueryFn cfg h net window st)) 0"

text \<open>
  The forecast query function of the page, and the forecast query under the retry loop.
  A failed attempt leaves the medium as it was, so every attempt of a run meets the same
  medium; the clock is read once for the run.
\<close>

definition forecastQueryFn ::
  "config \<Rightarrow> host \<Rightarrow> network \<Rightarrow> forecast_snapshot browser \<Rightarrow> int \<Rightarrow> home_state
     \<Rightarrow> (js_error + forecast option) \<times> forecast_snapshot browser \<times> request list" where
  "forecastQueryFn cfg h net b now st =
     (case selectedCity st of
        None \<Rightarrow> (Inr None, b, [])
      | Some city \<Rightarrow>
          if \<not> window_defined b then (Inr None, b, [])
          else (case getForecast cfg h net b now (gp_lat city) (gp_lon city) Metric of
                  (r, b', reqs) \<Rightarrow> (map_sum id Some r, b', reqs)))"

definition runForecastQuery ::
  "config \<Rightarrow> host \<Rightarrow> network \<Rightarrow> forecast_snapshot browser \<Rightarrow> int \<Rightarrow> home_state
     \<Rightarrow> (js_error + forecast option) \<times> nat list" where
  "runForecastQuery cfg h net b now st =
     runQuery (\<lambda>_. fst (forecastQueryFn cfg h net b now st)) 0"

subsection \<open>Concrete scenarios\<close>

text \<open>
  The inputs at which the theorems below are evaluated: London at
  \<open>(51.5, -0.12)\<close>, an answer with \<open>temperature_2m = 15.2\<close> and \<open>weathercode = 3\<close>, a
  provider that answers 404, a network that is down, and storage media in several
  conditions.
\<close>

text \<open>Two decimals, rounded half up on the absolute value, the sign in front.\<close>

definition two_decimals :: "real \<Rightarrow> string" where
  "two_decimals x =
     (let n = nat \<lfloor>\<bar>x\<bar> * 100 + 1 / 2\<rfloor>
      in (if x < 0 then ''-'' else []) @ string_of_nat (n div 100) @ ''.''
           @ [digit_char (n mod 100 div 10), digit_char (n mod 10)])"

definition example_host :: host where
  "example_host =
     \<lparr>toFixed2 = two_decimals,
      isOpenMeteoDayTime = (\<lambda>_. True),
      getOpenMeteoWeatherIcon = (\<lambda>_ isDay. if isDay then ''04d'' else ''04n''),
      getOpenMeteoWeatherDescription = (\<lambda>_. ''Overcast''),
      hourlyTemperature = (\<lambda>_ _ _. 20)\<rparr>"

definition london_current :: om_current where
  "london_current =
     \<lparr>cur_time = IsoString 1700000000000, temperature_2m = 15.2, relative_humidity_2m = 70,
      wind_speed_10m = 10, wind_direction_10m = 180, weathercode = 3\<rparr>"

definition london_daily :: om_daily where
  "london_daily =
     \<lparr>d_time = [IsoString 1700000000000], d_weathercode = [3],
      d_temperature_2m_max = [16], d_temperature_2m_min = [9]\<rparr>"

definition london_data :: open_meteo_response where
  "london_data =
     \<lparr>om_latitude = 51.5, om_longitude = -0.12, utc_offset_seconds = 0,
      current_block = Some london_current, daily_block = Some london_daily\<rparr>"

definition fetch_failed :: js_error where
  "fetch_failed = new_TypeError ''Failed to fetch''"

definition offline_network :: network where
  "offline_network =
     \<lparr>net_geocoding = (\<lambda>_. Rejected fetch_failed),
      net_open_meteo_current = (\<lambda>_ _ _. Rejected fetch_failed),
      net_open_meteo_forecast = (\<lambda>_ _ _. Rejected fetch_failed),
      net_openweather_current = (\<lambda>_ _ _ _. Rejected fetch_failed),
      net_openweather_onecall = (\<lambda>_ _ _ _. Rejected fetch_failed)\<rparr>"

definition not_found :: "'b http_response" where
  "not_found =
     \<lparr>status = 404, statusText = ''Not Found'',
      json = Inl (new_SyntaxError ''Unexpected end of JSON input'')\<rparr>"

definition not_found_network :: network where
  "not_found_network =
     \<lparr>net_geocoding = (\<lambda>_. Resolved not_found),
      net_open_meteo_current = (\<lambda>_ _ _. Resolved not_found),
      net_open_meteo_forecast = (\<lambda>_ _ _. Resolved not_found),
      net_openweather_current = (\<lambda>_ _ _ _. Resolved not_found),
      net_openweather_onecall = (\<lambda>_ _ _ _. Resolved not_found)\<rparr>"

definition london_network :: network where
  "london_network =
     \<lparr>net_geocoding =
        (\<lambda>_. Resolved \<lparr>status = 200, statusText = ''OK'', json = Inr (JsonValue ResultsAbsent)\<rparr>),
      net_open_meteo_current =
        (\<lambda>_ _ _. Resolved \<lparr>status = 200, statusText = ''OK'', json = Inr london_data\<rparr>),
      net_open_meteo_forecast =
        (\<lambda>_ _ _. Resolved \<lparr>status = 200, statusText = ''OK'', json = Inr london_data\<rparr>),
      net_openweather_current = (\<lambda>_ _ _ _. Rejected fetch_failed),
      net_openweather_onecall = (\<lambda>_ _ _ _. Rejected fetch_failed)\<rparr>"

definition openweather_config :: config where
  "openweather_config = \<lparr>PROVIDER = ''openweather'', API_KEY = Some ''key''\<rparr>"

definition old_forecast :: forecast where
  "old_forecast =
     \<lparr>timezone_offset = 3600, daily = [], hourly = [], cached = None, cachedAt = None\<rparr>"

text \<open>A snapshot saved at the instant 0.\<close>

definition old_snapshot :: forecast_snapshot where
  "old_snapshot =
     \<lparr>snap_data = old_forecast, snap_timestamp = IsoString 0,
      snap_city = ''48.86, 2.35'', snap_units = Metric\<rparr>"

definition empty_browser :: "forecast_snapshot browser" where
  "empty_browser =
     \<lparr>window_defined = True, getItem_throws = None, setItem_throws = None,
      removeItem_throws = None, items = Map.empty\<rparr>"

definition snapshot_browser :: "forecast_snapshot browser" where
  "snapshot_browser = empty_browser\<lparr>items := [SNAPSHOT_KEY \<mapsto> Json old_snapshot]\<rparr>"

text \<open>A medium whose every access throws, and one whose quota is full.\<close>

definition private_browser :: "forecast_snapshot browser" where
  "private_browser =
     \<lparr>window_defined = True,
      getItem_throws = Some (JsError ''SecurityError'' ''The operation is insecure.'' None),
      setItem_throws = Some (JsError ''SecurityError'' ''The operation is insecure.'' None),
      removeItem_throws = Some (JsError ''SecurityError'' ''The operation is insecure.'' None),
      items = Map.empty\<rparr>"

definition full_browser :: "forecast_snapshot browser" where
  "full_browser =
     snapshot_browser\<lparr>setItem_throws :=
        Some (JsError ''QuotaExceededError'' ''The quota has been exceeded.'' None)\<rparr>"

definition two_hours :: int where
  "two_hours = 2 * 60 * 60 * 1000"

definition twenty_five_hours :: int where
  "twenty_five_hours = 25 * 60 * 60 * 1000"

definition london :: geo_point where
  "london = \<lparr>gp_lat = 51.5, gp_lon = -0.12, gp_name = Some ''London'', gp_country = Some ''United Kingdom''\<rparr>"

definition london_metric :: home_state where
  "london_metric =
     \<lparr>selectedCity = Some london, display_units = Metric,
      originalCurrentWeather = None, originalForecast = None\<rparr>"

text \<open>What the London answer converts to.\<close>

definition london_weather :: current_weather where
  "london_weather =
     \<lparr>coord = (51.5, -0.12), cw_dt = Some 1700000000, cw_timezone = 0,
      cw_name = ''51.50, -0.12'',
      cw_weather = [\<lparr>wc_id = Some 3, wc_main = ''Clear'', wc_description = ''Overcast'',
                     wc_icon = ''04d''\<rparr>],
      cw_main = \<lparr>temp = 15.2, feels_like = 15.2, humidity = 70, pressure = 1013\<rparr>,
      cw_wind = \<lparr>speed = 10, deg = 180\<rparr>\<rparr>"

definition london_forecast :: forecast where
  "london_forecast =
     \<lparr>timezone_offset = 0,
      daily = [\<lparr>df_dt = Some 1700000000,
                df_temp = \<lparr>temp_min = Some 9, temp_max = Some 16\<rparr>,
                df_weather = [\<lparr>wc_id = Some 3, wc_main = ''Clear'',
                               wc_description = ''Overcast'', wc_icon = ''04d''\<rparr>]\<rparr>],
      hourly = replicate 24 \<lparr>hd_time = [], hd_temperature = 20\<rparr>,
      cached = None, cachedAt = None\<rparr>"

definition london_imperial :: home_state where
  "london_imperial = fst (handleUnitsChange london_metric Imperial)"

text \<open>A second answer: fog at 20 degrees.\<close>

definition foggy_current :: om_current where
  "foggy_current =
     \<lparr>cur_time = IsoString 1700000000000, temperature_2m = 20, relative_humidity_2m = 95,
      wind_speed_10m = 4, wind_direction_10m = 90, weathercode = 45\<rparr>"

definition foggy_data :: open_meteo_response where
  "foggy_data = london_data\<lparr>current_block := Some foggy_current\<rparr>"

definition foggy_network :: network where
  "foggy_network =
     london_network\<lparr>net_open_meteo_current :=
        (\<lambda>_ _ _. Resolved \<lparr>status = 200, statusText = ''OK'', json = Inr foggy_data\<rparr>)\<rparr>"

definition foggy_weather :: current_weather where
  "foggy_weather =
     london_weather\<lparr>cw_weather := [\<lparr>wc_id = Some 45, wc_main = ''Fog'', wc_description = ''Overcast'',
                                       wc_icon = ''04d''\<rparr>],
                    cw_main := \<lparr>temp = 20, feels_like = 20, humidity = 95, pressure = 1013\<rparr>,
                    cw_wind := \<lparr>speed = 4, deg = 90\<rparr>\<rparr>"

text \<open>The query \<^verbatim>\<open>Lo\<close>, and a double just above \<open>10\<^sup>1\<^sup>0\<close>.\<close>

definition london_query :: js_string where
  "london_query = [0x4C, 0x6F]"

definition big_temperature :: real where
  "big_temperature = 10 ^ 10 + 3 / 2 ^ 19"

definition kmh_to_mph :: real where
  "kmh_to_mph = 0.621371"

section \<open>Properties\<close>

subsection \<open>Decimal texts and trimming\<close>

lemma digit_char_no_space: "d < 10 \<Longrightarrow> digit_char d \<noteq> CHR '' ''"
proof -
  assume "d < 10"
  then have "d \<in> {0,1,2,3,4,5,6,7,8,9}" by auto
  then show ?thesis by (auto simp: digit_char_def)
qed

lemma string_of_nat_small: "n < 10 \<Longrightarrow> string_of_nat n = [digit_char n]"
  by (subst string_of_nat.simps) simp

lemma string_of_nat_big:
  "\<not> n < 10 \<Longrightarrow> string_of_nat n = string_of_nat (n div 10) @ [digit_char (n mod 10)]"
  by (subst string_of_nat.simps) simp

lemma string_of_nat_no_space: "CHR '' '' \<notin> set (string_of_nat n)"
proof (induction n rule: string_of_nat.induct)
  case (1 n)
  show ?case
  proof (cases "n < 10")
    case True
    then show ?thesis using digit_char_no_space [of n] by (auto simp: string_of_nat_small)
  next
    case False
    with 1 show ?thesis using digit_char_no_space [of "n mod 10"]
      by (auto simp: string_of_nat_big)
  qed
qed

lemma digit_char_inj: "a < 10 \<Longrightarrow> b < 10 \<Longrightarrow> digit_char a = digit_char b \<Longrightarrow> a = b"
proof -
  assume "a < 10" "b < 10" and e: "digit_char a = digit_char b"
  then have "a \<in> {0,1,2,3,4,5,6,7,8,9}" "b \<in> {0,1,2,3,4,5,6,7,8,9}" by auto
  with e show ?thesis by (auto simp: digit_char_def)
qed

lemma string_of_nat_nonempty: "string_of_nat n \<noteq> []"
  by (subst string_of_nat.simps) simp

lemma string_of_nat_inj: "string_of_nat n = string_of_nat m \<Longrightarrow> n = m"
proof (induction n arbitrary: m rule: string_of_nat.induct)
  case (1 n)
  note eq = \<open>string_of_nat n = string_of_nat m\<close>
  show ?case
  proof (cases "n < 10")
    case nsmall: True
    show ?thesis
    proof (cases "m < 10")
      case True
      with nsmall eq show ?thesis
        by (simp add: string_of_nat_small digit_char_inj)
    next
      case False
      with nsmall eq string_of_nat_nonempty [of "m div 10"] show ?thesis
        by (simp add: string_of_nat_small string_of_nat_big)
    qed
  next
    case nbig: False
    show ?thesis
    proof (cases "m < 10")
      case True
      with nbig eq string_of_nat_nonempty [of "n div 10"] show ?thesis
        by (simp add: string_of_nat_small string_of_nat_big)
    next
      case False
      with nbig eq have a: "string_of_nat (n div 10) = string_of_nat (m div 10)"
        and b: "digit_char (n mod 10) = digit_char (m mod 10)"
        by (simp_all add: string_of_nat_big)
      from a have "n div 10 = m div 10" using 1(1) nbig by blast
      moreover from b have "n mod 10 = m mod 10" by (simp add: digit_char_inj)
      ultimately show ?thesis by (metis div_mult_mod_eq)
    qed
  qed
qed

lemma string_of_nat_no_minus: "CHR ''-'' \<notin> set (string_of_nat n)"
proof (induction n rule: string_of_nat.induct)
  case (1 n)
  have d: "digit_char d \<noteq> CHR ''-''" if "d < 10" for d
  proof -
    from that have "d \<in> {0,1,2,3,4,5,6,7,8,9}" by auto
    then show ?thesis by (auto simp: digit_char_def)
  qed
  show ?case
  proof (cases "n < 10")
    case True
    then show ?thesis using d [of n] by (auto simp: string_of_nat_small)
  next
    case False
    with 1 show ?thesis using d [of "n mod 10"]
      by (auto simp: string_of_nat_big)
  qed
qed

lemma string_of_int_inj: "string_of_int i = string_of_int j \<Longrightarrow> i = j"
proof -
  assume eq: "string_of_int i = string_of_int j"
  have hdpos: "hd (string_of_nat n) \<noteq> CHR ''-''" for n
    using string_of_nat_no_minus [of n] string_of_nat_nonempty [of n]
    by (metis list.set_sel(1))
  show ?thesis
  proof (cases "i < 0")
    case ineg: True
    show ?thesis
    proof (cases "j < 0")
      case True
      with ineg eq have "nat (- i) = nat (- j)"
        by (auto simp: string_of_int_def dest: string_of_nat_inj)
      with ineg True show ?thesis by simp
    next
      case False
      with ineg eq hdpos [of "nat j"] show ?thesis
        by (auto simp: string_of_int_def dest: arg_cong [where f = hd])
    qed
  next
    case ipos: False
    show ?thesis
    proof (cases "j < 0")
      case True
      with ipos eq hdpos [of "nat i"] show ?thesis
        by (auto simp: string_of_int_def dest: arg_cong [where f = hd])
    next
      case False
      with ipos eq have "nat i = nat j"
        by (auto simp: string_of_int_def dest: string_of_nat_inj)
      with ipos False show ?thesis by simp
    qed
  qed
qed

lemma string_of_int_no_space: "CHR '' '' \<notin> set (string_of_int i)"
  by (simp add: string_of_int_def string_of_nat_no_space)

lemma status_line_inj:
  "string_of_int i @ CHR '' '' # s = string_of_int j @ CHR '' '' # t \<Longrightarrow> i = j"
proof -
  assume eq: "string_of_int i @ CHR '' '' # s = string_of_int j @ CHR '' '' # t"
  have tw: "takeWhile (\<lambda>c. c \<noteq> CHR '' '') (string_of_int k @ CHR '' '' # r) = string_of_int k" for k r
  proof -
    have "\<And>c. c \<in> set (string_of_int k) \<Longrightarrow> c \<noteq> CHR '' ''"
      using string_of_int_no_space [of k] by auto
    then show ?thesis by (subst takeWhile_append2) auto
  qed
  from eq have "string_of_int i = string_of_int j"
    using tw [of i s] tw [of j t] by simp
  then show ?thesis by (rule string_of_int_inj)
qed

lemma all_dropWhile: "(\<forall>x\<in>set (dropWhile P xs). P x) \<longleftrightarrow> (\<forall>x\<in>set xs. P x)"
  by (induction xs) auto

lemma trim_empty_iff: "trim s = [] \<longleftrightarrow> (\<forall>c\<in>set s. isWhiteSpace c)"
  by (simp add: trim_def all_dropWhile)

lemma string_of_int_404: "string_of_int 404 = ''404''"
  by (simp add: string_of_int_def string_of_nat.simps digit_char_def)

subsection \<open>The snapshot store degrades silently\<close>

lemma getJSON_total: "\<exists>r. getJSON b key = Inr r"
  by (simp add: getJSON_def try_catch_def split: sum.split option.split)

lemma getSnapshot_total: "\<exists>r. getSnapshot b = Inr r"
  by (simp add: getSnapshot_def try_catch_def split: sum.split)

lemma saveSnapshot_total: "\<exists>b'. saveSnapshot b now d city u = Inr b'"
  by (simp add: saveSnapshot_def try_catch_def split: sum.split)

lemma clearSnapshot_total: "\<exists>b'. clearSnapshot b = Inr b'"
  by (simp add: clearSnapshot_def try_catch_def split: sum.split)

lemma saveSnapshot_available:
  "window_defined b \<Longrightarrow> setItem_throws b = None \<Longrightarrow>
   saveSnapshot b now d city u =
     Inr (b\<lparr>items := (items b)(SNAPSHOT_KEY \<mapsto>
            Json \<lparr>snap_data = d, snap_timestamp = IsoString now, snap_city = city, snap_units = u\<rparr>)\<rparr>)"
  by (simp add: saveSnapshot_def setJSON_def localStorage_setItem_def JSON_stringify_def try_catch_def)

lemma saveSnapshot_unavailable:
  "\<not> window_defined b \<or> setItem_throws b \<noteq> None \<Longrightarrow> saveSnapshot b now d city u = Inr b"
  by (auto simp: saveSnapshot_def setJSON_def localStorage_setItem_def try_catch_def)

lemma getSnapshot_unavailable:
  "\<not> window_defined b \<or> getItem_throws b \<noteq> None \<Longrightarrow> getSnapshot b = Inr None"
  by (auto simp: getSnapshot_def getJSON_def localStorage_getItem_def try_catch_def)

lemma getSnapshot_empty: "items b SNAPSHOT_KEY = None \<Longrightarrow> getSnapshot b = Inr None"
  by (auto simp: getSnapshot_def getJSON_def localStorage_getItem_def try_catch_def split: option.split)

lemma getSnapshot_available:
  "window_defined b \<Longrightarrow> getItem_throws b = None \<Longrightarrow> items b SNAPSHOT_KEY = Some (Json s) \<Longrightarrow>
   getSnapshot b = Inr (Some s)"
  by (simp add: getSnapshot_def getJSON_def localStorage_getItem_def JSON_parse_def try_catch_def)

lemma clearSnapshot_unavailable:
  "\<not> window_defined b \<or> removeItem_throws b \<noteq> None \<Longrightarrow> clearSnapshot b = Inr b"
  by (auto simp: clearSnapshot_def removeKey_def localStorage_removeItem_def try_catch_def)

text \<open>
  Claim C7.  Every snapshot-store operation is a no-op rather than an error when the
  persistence medium is unavailable or throws: \<open>saveSnapshot\<close>, \<open>getSnapshot\<close> and
  \<open>clearSnapshot\<close> always return normally; without a window, or when the method of
  \<^verbatim>\<open>localStorage\<close> they use throws, save and clear leave the medium as it is and load
  returns \<^verbatim>\<open>null\<close>, which is also what load returns on an empty store.
\<close>

theorem snapshot_store_never_raises:
  "(\<exists>b'. saveSnapshot b now d city u = Inr b')
   \<and> (\<exists>r. getSnapshot b = Inr r)
   \<and> (\<exists>b'. clearSnapshot b = Inr b')
   \<and> (\<not> window_defined b \<or> setItem_throws b \<noteq> None \<longrightarrow> saveSnapshot b now d city u = Inr b)
   \<and> (\<not> window_defined b \<or> getItem_throws b \<noteq> None \<longrightarrow> getSnapshot b = Inr None)
   \<and> (\<not> window_defined b \<or> removeItem_throws b \<noteq> None \<longrightarrow> clearSnapshot b = Inr b)
   \<and> (items b SNAPSHOT_KEY = None \<longrightarrow> getSnapshot b = Inr None)"
  using saveSnapshot_total [of b now d city u] getSnapshot_total [of b] clearSnapshot_total [of b]
    saveSnapshot_unavailable [of b now d city u] getSnapshot_unavailable [of b]
    clearSnapshot_unavailable [of b] getSnapshot_empty [of b]
  by blast

theorem snapshot_store_never_raises_witness:
  "saveSnapshot private_browser 0 old_forecast ''51.50, -0.12'' Metric = Inr private_browser
   \<and> getSnapshot private_browser = Inr None
   \<and> clearSnapshot private_browser = Inr private_browser
   \<and> getSnapshot empty_browser = Inr None
   \<and> getSnapshot (empty_browser\<lparr>window_defined := False\<rparr>) = Inr None"
  using snapshot_store_never_raises [of private_browser 0 old_forecast "''51.50, -0.12''" Metric]
    snapshot_store_never_raises [of empty_browser 0 old_forecast "''51.50, -0.12''" Metric]
    snapshot_store_never_raises [of "empty_browser\<lparr>window_defined := False\<rparr>" 0 old_forecast "''51.50, -0.12''" Metric]
  by (simp add: private_browser_def empty_browser_def)

subsection \<open>Location search\<close>

text \<open>
  Claim C10.  For every query that is empty or consists only of whitespace,
  \<open>searchCity\<close> returns the empty list and issues no request.
\<close>

theorem searchCity_blank_query:
  "(\<forall>c\<in>set query. isWhiteSpace c) \<Longrightarrow> searchCity net query = (Inr [], [])"
  by (simp add: searchCity_def trim_empty_iff)

theorem searchCity_blank_query_witness:
  "isWhiteSpace 0x20 \<and> isWhiteSpace 0x09 \<and> isWhiteSpace 0x3000
   \<and> searchCity not_found_network [0x20, 0x09, 0x3000] = (Inr [], [])
   \<and> searchCity not_found_network [] = (Inr [], [])"
  using searchCity_blank_query [of "[0x20, 0x09, 0x3000]" not_found_network]
    searchCity_blank_query [of "[]" not_found_network]
  by (simp add: isWhiteSpace_def)

lemma searchCity_nonblank_requests:
  "trim query \<noteq> [] \<Longrightarrow> wellFormedUnicode query \<Longrightarrow>
   snd (searchCity net query) = [GeocodingSearch query]"
  by (simp add: searchCity_def encodeURIComponent_def)

text \<open>
  A query with an unpaired surrogate never reaches the network: building the URL throws.
\<close>

lemma searchCity_malformed_query:
  "trim query \<noteq> [] \<Longrightarrow> \<not> wellFormedUnicode query \<Longrightarrow>
   searchCity net query = (Inl (new_URIError ''URI malformed''), [])"
  by (simp add: searchCity_def encodeURIComponent_def)

lemma searchCity_lone_surrogate:
  "searchCity london_network [0xD800] = (Inl (new_URIError ''URI malformed''), [])"
  by (simp add: searchCity_def encodeURIComponent_def trim_def isWhiteSpace_def
      isHighSurrogate_def)

text \<open>
  For a well-formed query that gets a response: a response outside 200 to 299 throws an
  \<^verbatim>\<open>Error\<close> whose message text holds the status (two such responses that give the same
  error have the same status); a response in 200 to 299 whose body is not \<^verbatim>\<open>null\<close> and
  whose \<^verbatim>\<open>results\<close> is absent, not an array or an empty array gives the empty list; a
  body \<^verbatim>\<open>null\<close> throws a \<^verbatim>\<open>TypeError\<close>.
\<close>

lemma searchCity_responses:
  assumes "trim query \<noteq> []" and "wellFormedUnicode query"
    and "net_geocoding net query = Resolved response"
  shows "(\<not> ok response \<longrightarrow>
            fst (searchCity net query) =
              Inl (new_Error (''Failed to search cities: '' @ string_of_int (status response)
                               @ '' '' @ statusText response)))
       \<and> (\<not> ok response \<and> net_geocoding net' query = Resolved response' \<and> \<not> ok response'
             \<and> fst (searchCity net' query) = fst (searchCity net query)
             \<longrightarrow> status response' = status response)
       \<and> (ok response \<and> (json response = Inr (JsonValue ResultsAbsent)
                        \<or> json response = Inr (JsonValue ResultsNotArray)
                        \<or> json response = Inr (JsonValue (ResultsArray [])))
            \<longrightarrow> fst (searchCity net query) = Inr [])
       \<and> (ok response \<and> json response = Inr JsonNull
            \<longrightarrow> fst (searchCity net query) = Inl (new_TypeError ''Cannot read properties of null''))"
  using assms
  by (auto simp: searchCity_def encodeURIComponent_def new_Error_def dest: status_line_inj)

text \<open>No error thrown for a response outside 200 to 299 has a \<^verbatim>\<open>status\<close> property.\<close>

lemma searchCity_error_without_status:
  assumes "trim query \<noteq> []" and "wellFormedUnicode query"
    and "net_geocoding net query = Resolved response" and "\<not> ok response"
  shows "\<exists>error. fst (searchCity net query) = Inl error \<and> status_prop error = None"
  using assms by (simp add: searchCity_def encodeURIComponent_def new_Error_def)

lemma london_query_well_formed: "trim london_query \<noteq> [] \<and> wellFormedUnicode london_query"
  by (simp add: london_query_def trim_def isWhiteSpace_def isHighSurrogate_def isLowSurrogate_def)

lemma searchCity_london_empty: "searchCity london_network london_query = (Inr [], [GeocodingSearch london_query])"
  using london_query_well_formed
  by (simp add: searchCity_def encodeURIComponent_def london_network_def ok_def)


subsection \<open>The London scenario, evaluated\<close>

lemma string_of_nat_0: "string_of_nat 0 = ''0''"
  by (simp add: string_of_nat.simps digit_char_def)

lemma string_of_nat_51: "string_of_nat 51 = ''51''"
  by (simp add: string_of_nat.simps digit_char_def)

lemma london_lat_text: "toFixed2 example_host (gp_lat london) = ''51.50''"
  by (simp add: london_def example_host_def two_decimals_def Let_def string_of_nat_51 digit_char_def)

lemma london_lon_text: "toFixed2 example_host (gp_lon london) = ''-0.12''"
  by (simp add: london_def example_host_def two_decimals_def Let_def string_of_nat_0 digit_char_def)

lemma getWeatherMain_3: "getWeatherMain 3 = ''Clear''"
  by (simp add: getWeatherMain_def weatherMap_def)

lemma london_current_weather:
  "getCurrentOpenMeteo example_host london_network (gp_lat london) (gp_lon london) Metric =
     (Inr london_weather, [OpenMeteoCurrent (gp_lat london) (gp_lon london) Metric])"
  apply (simp add: getCurrentOpenMeteo_def london_network_def ok_def london_data_def
      london_current_def epoch_seconds_def getWeatherMain_3 london_weather_def Let_def)
  apply (simp add: example_host_def two_decimals_def Let_def string_of_nat_0 string_of_nat_51
      digit_char_def)
  done

lemma london_normalized: "normalizeForecast example_host now london_data = Inr london_forecast"
  apply (simp add: normalizeForecast_def london_data_def london_daily_def dailyEntry_def
      js_index_def epoch_seconds_def getWeatherMain_undef_def getWeatherMain_3
      buildDeterministicHourly_def london_forecast_def Let_def)
  apply (simp add: example_host_def map_replicate_const)
  done

subsection \<open>The forecast's offline fallback\<close>

lemma forecastTry_rejected:
  "net_open_meteo_forecast net lat lon u = Rejected e \<Longrightarrow> forecastTry h net b now lat lon u = Inl e"
  by (simp add: forecastTry_def)

lemma forecastTry_not_ok:
  "net_open_meteo_forecast net lat lon u = Resolved r \<Longrightarrow> \<not> ok r \<Longrightarrow>
   forecastTry h net b now lat lon u =
     Inl (new_Error (''Failed to fetch forecast: '' @ string_of_int (status r) @ '' '' @ statusText r))"
  by (simp add: forecastTry_def)

lemma getForecast_caught:
  "PROVIDER cfg = ''open-meteo'' \<Longrightarrow> forecastTry h net b now lat lon u = Inl error \<Longrightarrow>
   getForecast cfg h net b now lat lon u =
     (forecastCatch b now error, b, [OpenMeteoForecast lat lon u])"
  by (simp add: getForecast_def)

lemma forecastCatch_recent:
  "getSnapshot b = Inr (Some s) \<Longrightarrow> snap_timestamp s = IsoString t \<Longrightarrow>
   now - t < 24 * 60 * 60 * 1000 \<Longrightarrow>
   forecastCatch b now error = Inr ((snap_data s)\<lparr>cached := Some True, cachedAt := Some (IsoString t)\<rparr>)"
  by (simp add: forecastCatch_def isSnapshotRecent_def twentyFourHours_def)

lemma forecastCatch_old:
  "getSnapshot b = Inr (Some s) \<Longrightarrow> snap_timestamp s = IsoString t \<Longrightarrow>
   24 * 60 * 60 * 1000 \<le> now - t \<Longrightarrow> forecastCatch b now error = Inl error"
  by (simp add: forecastCatch_def isSnapshotRecent_def twentyFourHours_def)

lemma forecastCatch_not_a_date:
  "getSnapshot b = Inr (Some s) \<Longrightarrow> snap_timestamp s = NotADate \<Longrightarrow>
   forecastCatch b now error = Inl error"
  by (simp add: forecastCatch_def isSnapshotRecent_def)

lemma forecastCatch_none:
  "getSnapshot b = Inr None \<Longrightarrow> forecastCatch b now error = Inl error"
  by (simp add: forecastCatch_def)

lemma forecastTry_json_rejected:
  "net_open_meteo_forecast net lat lon u = Resolved r \<Longrightarrow> ok r \<Longrightarrow> json r = Inl e \<Longrightarrow>
   forecastTry h net b now lat lon u = Inl e"
  by (simp add: forecastTry_def)

lemma forecastTry_not_convertible:
  "net_open_meteo_forecast net lat lon u = Resolved r \<Longrightarrow> ok r \<Longrightarrow> json r = Inr data \<Longrightarrow>
   normalizeForecast h now data = Inl e \<Longrightarrow> forecastTry h net b now lat lon u = Inl e"
  by (simp add: forecastTry_def)

text \<open>
  The open-meteo branch: whatever fails inside the \<^verbatim>\<open>try\<close> (the fetch rejects, the
  response is not 2xx, its body does not parse, the answer has no daily block), the
  \<^verbatim>\<open>catch\<close> reads the snapshot store.  A snapshot younger than 24 hours is returned with
  \<^verbatim>\<open>_cached: true\<close> and its own timestamp as \<^verbatim>\<open>_cachedAt\<close>; with no snapshot, or one aged
  24 hours or more, the caught error is thrown again.  The store is left as it was.
\<close>

lemma getForecast_open_meteo_fallback:
  assumes provider: "PROVIDER cfg = ''open-meteo''"
    and fails: "forecastTry h net b now lat lon u = Inl error"
  shows "(getSnapshot b = Inr (Some s) \<and> snap_timestamp s = IsoString t \<and> now - t < 24 * 60 * 60 * 1000
            \<longrightarrow> fst (getForecast cfg h net b now lat lon u) =
                  Inr ((snap_data s)\<lparr>cached := Some True, cachedAt := Some (IsoString t)\<rparr>))
       \<and> (getSnapshot b = Inr (Some s) \<and> snap_timestamp s = IsoString t \<and> 24 * 60 * 60 * 1000 \<le> now - t
            \<longrightarrow> fst (getForecast cfg h net b now lat lon u) = Inl error)
       \<and> (getSnapshot b = Inr (Some s) \<and> snap_timestamp s = NotADate
            \<longrightarrow> fst (getForecast cfg h net b now lat lon u) = Inl error)
       \<and> (getSnapshot b = Inr None \<longrightarrow> fst (getForecast cfg h net b now lat lon u) = Inl error)
       \<and> fst (snd (getForecast cfg h net b now lat lon u)) = b"
proof -
  from provider fails have "getForecast cfg h net b now lat lon u =
      (forecastCatch b now error, b, [OpenMeteoForecast lat lon u])"
    by (rule getForecast_caught)
  then show ?thesis
    by (simp add: forecastCatch_recent forecastCatch_old forecastCatch_none
        forecastCatch_not_a_date)
qed

lemma getSnapshot_snapshot_browser: "getSnapshot snapshot_browser = Inr (Some old_snapshot)"
  by (simp add: getSnapshot_available snapshot_browser_def empty_browser_def)

lemma getSnapshot_empty_browser: "getSnapshot empty_browser = Inr None"
  by (simp add: getSnapshot_empty empty_browser_def)

lemma forecastTry_offline:
  "forecastTry h offline_network b now lat lon u = Inl fetch_failed"
  by (simp add: forecastTry_rejected offline_network_def)

lemma forecastTry_not_found:
  "forecastTry h not_found_network b now lat lon u =
     Inl (new_Error ''Failed to fetch forecast: 404 Not Found'')"
  using forecastTry_not_ok [of not_found_network lat lon u not_found h b now]
  by (simp add: not_found_network_def not_found_def ok_def string_of_int_404)

text \<open>
  The open-meteo fallback at work: a snapshot two hours old is served when the network is
  down and when the provider answers 404; a snapshot 25 hours old, or an empty store,
  lets the error through.
\<close>

lemma getForecast_open_meteo_fallback_examples:
  "fst (getForecast default_config example_host offline_network snapshot_browser two_hours
          (gp_lat london) (gp_lon london) Metric) =
     Inr (old_forecast\<lparr>cached := Some True, cachedAt := Some (IsoString 0)\<rparr>)
   \<and> fst (getForecast default_config example_host not_found_network snapshot_browser two_hours
          (gp_lat london) (gp_lon london) Metric) =
     Inr (old_forecast\<lparr>cached := Some True, cachedAt := Some (IsoString 0)\<rparr>)
   \<and> fst (getForecast default_config example_host offline_network snapshot_browser twenty_five_hours
          (gp_lat london) (gp_lon london) Metric) = Inl fetch_failed
   \<and> fst (getForecast default_config example_host offline_network empty_browser two_hours
          (gp_lat london) (gp_lon london) Metric) = Inl fetch_failed"
  using
    getForecast_open_meteo_fallback [of default_config example_host offline_network snapshot_browser
      two_hours "gp_lat london" "gp_lon london" Metric fetch_failed old_snapshot 0]
    getForecast_open_meteo_fallback [of default_config example_host not_found_network snapshot_browser
      two_hours "gp_lat london" "gp_lon london" Metric
      "new_Error ''Failed to fetch forecast: 404 Not Found''" old_snapshot 0]
    getForecast_open_meteo_fallback [of default_config example_host offline_network snapshot_browser
      twenty_five_hours "gp_lat london" "gp_lon london" Metric fetch_failed old_snapshot 0]
    getForecast_open_meteo_fallback [of default_config example_host offline_network empty_browser
      two_hours "gp_lat london" "gp_lon london" Metric fetch_failed old_snapshot 0]
  by (simp add: default_config_def forecastTry_offline forecastTry_not_found
      getSnapshot_snapshot_browser getSnapshot_empty_browser old_snapshot_def
      two_hours_def twenty_five_hours_def)

text \<open>
  The openweather branch has no \<^verbatim>\<open>try\<close> and never reads the store: a fetch that rejects
  throws, whatever the store holds.
\<close>

lemma getForecast_openweather_rejected:
  assumes "PROVIDER cfg = ''openweather''" and "API_KEY cfg = Some key" and "key \<noteq> []"
    and "net_openweather_onecall net lat lon u key = Rejected e"
  shows "getForecast cfg h net b now lat lon u = (Inl e, b, [OpenWeatherOneCall lat lon u key])"
  using assms by (simp add: getForecast_def)

text \<open>
  Claim C1 against the code.  The claim has every forecast request whose fetch fails fall
  back on a snapshot younger than 24 hours.  With the openweather provider a failed
  forecast fetch throws although the store holds a snapshot two hours old; the open-meteo
  branch of the same function serves that snapshot.
\<close>

theorem getForecast_openweather_no_fallback:
  "fst (getForecast openweather_config example_host offline_network snapshot_browser two_hours
          (gp_lat london) (gp_lon london) Metric) = Inl fetch_failed
   \<and> getSnapshot snapshot_browser = Inr (Some old_snapshot)
   \<and> isSnapshotRecent old_snapshot two_hours"
  by (simp add: getForecast_def openweather_config_def offline_network_def
      getSnapshot_snapshot_browser isSnapshotRecent_def old_snapshot_def two_hours_def
      twentyFourHours_def)

subsection \<open>Saving the snapshot\<close>

lemma forecastTry_success:
  assumes "net_open_meteo_forecast net lat lon u = Resolved r" and "ok r"
    and "json r = Inr data" and "normalizeForecast h now data = Inr fc"
    and "saveSnapshot b now fc (toFixed2 h lat @ '', '' @ toFixed2 h lon) u = Inr b'"
  shows "forecastTry h net b now lat lon u = Inr (fc, b')"
  using assms by (simp add: forecastTry_def Let_def)

lemma getForecast_success:
  assumes "PROVIDER cfg = ''open-meteo''"
    and "net_open_meteo_forecast net lat lon u = Resolved r" and "ok r"
    and "json r = Inr data" and "normalizeForecast h now data = Inr fc"
    and "saveSnapshot b now fc (toFixed2 h lat @ '', '' @ toFixed2 h lon) u = Inr b'"
  shows "getForecast cfg h net b now lat lon u = (Inr fc, b', [OpenMeteoForecast lat lon u])"
  using assms by (simp add: getForecast_def forecastTry_success)

text \<open>
  Claim C6, as amended.  With the open-meteo provider, a forecast fetch that succeeds
  returns the newly normalized forecast, and \<open>saveSnapshot\<close> has run before the return:
  when the medium is available and \<^verbatim>\<open>setItem\<close> does not throw, the store holds the new
  forecast tagged with the current timestamp, the location key and the units (and
  \<open>getSnapshot\<close> reads it back); otherwise the store is left as it was and the forecast
  is returned all the same.
\<close>

theorem getForecast_saves_snapshot:
  assumes "PROVIDER cfg = ''open-meteo''"
    and "net_open_meteo_forecast net lat lon u = Resolved r" and "ok r"
    and "json r = Inr data" and "normalizeForecast h now data = Inr fc"
  shows "fst (getForecast cfg h net b now lat lon u) = Inr fc
       \<and> (window_defined b \<and> setItem_throws b = None \<longrightarrow>
            fst (snd (getForecast cfg h net b now lat lon u)) =
              b\<lparr>items := (items b)(SNAPSHOT_KEY \<mapsto>
                   Json \<lparr>snap_data = fc, snap_timestamp = IsoString now,
                         snap_city = toFixed2 h lat @ '', '' @ toFixed2 h lon, snap_units = u\<rparr>)\<rparr>)
       \<and> (window_defined b \<and> setItem_throws b = None \<and> getItem_throws b = None \<longrightarrow>
            getSnapshot (fst (snd (getForecast cfg h net b now lat lon u))) =
              Inr (Some \<lparr>snap_data = fc, snap_timestamp = IsoString now,
                         snap_city = toFixed2 h lat @ '', '' @ toFixed2 h lon, snap_units = u\<rparr>))
       \<and> (\<not> window_defined b \<or> setItem_throws b \<noteq> None \<longrightarrow>
            fst (snd (getForecast cfg h net b now lat lon u)) = b)"
proof -
  let ?city = "toFixed2 h lat @ '', '' @ toFixed2 h lon"
  obtain b' where save: "saveSnapshot b now fc ?city u = Inr b'"
    using saveSnapshot_total by blast
  with assms have g: "getForecast cfg h net b now lat lon u = (Inr fc, b', [OpenMeteoForecast lat lon u])"
    by (simp add: getForecast_success)
  have "window_defined b \<and> setItem_throws b = None \<longrightarrow>
          b' = b\<lparr>items := (items b)(SNAPSHOT_KEY \<mapsto>
                   Json \<lparr>snap_data = fc, snap_timestamp = IsoString now,
                         snap_city = ?city, snap_units = u\<rparr>)\<rparr>"
    using save by (auto simp: saveSnapshot_available)
  moreover have "\<not> window_defined b \<or> setItem_throws b \<noteq> None \<longrightarrow> b' = b"
    using save saveSnapshot_unavailable [of b now fc ?city u] by auto
  ultimately show ?thesis
    using g by (auto simp: getSnapshot_available)
qed

text \<open>
  A successful fetch for London overwrites an older snapshot; on a medium that throws
  nothing is written.
\<close>

theorem getForecast_saves_snapshot_witness:
  "fst (getForecast default_config example_host london_network snapshot_browser two_hours
          (gp_lat london) (gp_lon london) Metric) = Inr london_forecast
   \<and> getSnapshot (fst (snd (getForecast default_config example_host london_network snapshot_browser
          two_hours (gp_lat london) (gp_lon london) Metric))) =
       Inr (Some \<lparr>snap_data = london_forecast, snap_timestamp = IsoString two_hours,
                  snap_city = ''51.50, -0.12'', snap_units = Metric\<rparr>)
   \<and> fst (snd (getForecast default_config example_host london_network private_browser two_hours
          (gp_lat london) (gp_lon london) Metric)) = private_browser"
  using
    getForecast_saves_snapshot [of default_config london_network "gp_lat london" "gp_lon london" Metric
      "\<lparr>status = 200, statusText = ''OK'', json = Inr london_data\<rparr>" london_data example_host
      two_hours london_forecast snapshot_browser]
    getForecast_saves_snapshot [of default_config london_network "gp_lat london" "gp_lon london" Metric
      "\<lparr>status = 200, statusText = ''OK'', json = Inr london_data\<rparr>" london_data example_host
      two_hours london_forecast private_browser]
  by (simp add: default_config_def london_network_def ok_def london_normalized
      snapshot_browser_def empty_browser_def private_browser_def london_lat_text london_lon_text
      getSnapshot_available)

text \<open>
  Claim C6 as stated fails: on a medium whose quota is full the fetch succeeds and the
  forecast is returned, while the store still holds the old snapshot.
\<close>

theorem getForecast_save_skipped_on_full_storage:
  "fst (getForecast default_config example_host london_network full_browser two_hours
          (gp_lat london) (gp_lon london) Metric) = Inr london_forecast
   \<and> fst (snd (getForecast default_config example_host london_network full_browser two_hours
          (gp_lat london) (gp_lon london) Metric)) = full_browser
   \<and> getSnapshot full_browser = Inr (Some old_snapshot)
   \<and> snap_data old_snapshot \<noteq> london_forecast
   \<and> snap_timestamp old_snapshot \<noteq> IsoString two_hours"
proof -
  have save: "saveSnapshot full_browser two_hours london_forecast
                (toFixed2 example_host (gp_lat london) @ '', '' @ toFixed2 example_host (gp_lon london))
                Metric = Inr full_browser"
    by (rule saveSnapshot_unavailable) (simp add: full_browser_def)
  have "getForecast default_config example_host london_network full_browser two_hours
          (gp_lat london) (gp_lon london) Metric =
        (Inr london_forecast, full_browser, [OpenMeteoForecast (gp_lat london) (gp_lon london) Metric])"
    using getForecast_success [of default_config london_network "gp_lat london" "gp_lon london"
        Metric "\<lparr>status = 200, statusText = ''OK'', json = Inr london_data\<rparr>" london_data
        example_host two_hours london_forecast full_browser full_browser]
      london_normalized save
    by (simp add: default_config_def london_network_def ok_def)
  moreover have "getSnapshot full_browser = Inr (Some old_snapshot)"
    by (simp add: getSnapshot_available full_browser_def snapshot_browser_def empty_browser_def)
  moreover have "snap_data old_snapshot \<noteq> london_forecast"
    by (simp add: old_snapshot_def old_forecast_def london_forecast_def)
  moreover have "snap_timestamp old_snapshot \<noteq> IsoString two_hours"
    by (simp add: old_snapshot_def two_hours_def)
  ultimately show ?thesis by simp
qed

subsection \<open>Current conditions from Open-Meteo\<close>

lemma getCurrentOpenMeteo_ok:
  assumes "net_open_meteo_current net lat lon u = Resolved response"
    and "ok response" and "json response = Inr data" and "current_block data = Some current"
  shows "\<exists>w. fst (getCurrentOpenMeteo h net lat lon u) = Inr w
           \<and> temp (cw_main w) = temperature_2m current
           \<and> feels_like (cw_main w) = temperature_2m current
           \<and> pressure (cw_main w) = 1013
           \<and> map wc_main (cw_weather w) = [getWeatherMain (weathercode current)]"
  using assms by (simp add: getCurrentOpenMeteo_def Let_def)

lemma getCurrentOpenMeteo_result:
  assumes "fst (getCurrentOpenMeteo h net lat lon u) = Inr w"
  shows "feels_like (cw_main w) = temp (cw_main w) \<and> pressure (cw_main w) = 1013"
  using assms
  by (auto simp: getCurrentOpenMeteo_def Let_def
           split: fetch_result.splits if_splits sum.splits option.splits)

text \<open>
  Claim C8.  For every Open-Meteo current-weather response that is converted (2xx, with a
  body that has a current block), the record's \<^verbatim>\<open>feels_like\<close> is the base temperature
  \<^verbatim>\<open>temperature_2m\<close> and its \<^verbatim>\<open>pressure\<close> is the constant 1013; and every record
  \<open>getCurrentOpenMeteo\<close> returns has these two properties.
\<close>

theorem open_meteo_substitutes_missing_fields:
  "(net_open_meteo_current net lat lon u = Resolved response \<and> ok response
      \<and> json response = Inr data \<and> current_block data = Some current
    \<longrightarrow> (\<exists>w. fst (getCurrentOpenMeteo h net lat lon u) = Inr w
              \<and> feels_like (cw_main w) = temperature_2m current
              \<and> pressure (cw_main w) = 1013))
   \<and> (fst (getCurrentOpenMeteo h net lat lon u) = Inr w'
    \<longrightarrow> feels_like (cw_main w') = temp (cw_main w') \<and> pressure (cw_main w') = 1013)"
  using getCurrentOpenMeteo_ok [of net lat lon u response data current h]
    getCurrentOpenMeteo_result [of h net lat lon u w']
  by blast

theorem open_meteo_substitutes_missing_fields_witness:
  "fst (getCurrentOpenMeteo example_host london_network (gp_lat london) (gp_lon london) Metric) =
     Inr london_weather
   \<and> temperature_2m london_current = 15.2
   \<and> feels_like (cw_main london_weather) = 15.2
   \<and> pressure (cw_main london_weather) = 1013"
  using open_meteo_substitutes_missing_fields [of london_network "gp_lat london" "gp_lon london"
      Metric "\<lparr>status = 200, statusText = ''OK'', json = Inr london_data\<rparr>" london_data
      london_current example_host london_weather]
  by (simp add: london_current_weather london_weather_def london_current_def)


lemma getWeatherMain_unlisted: "c \<notin> fst ` set weatherMap \<Longrightarrow> getWeatherMain c = ''Unknown''"
proof -
  assume "c \<notin> fst ` set weatherMap"
  then have "map_of weatherMap c = None"
    using map_of_eq_None_iff [of weatherMap c] by blast
  then show ?thesis
    by (simp add: getWeatherMain_def)
qed

text \<open>The record \<open>getCurrentOpenMeteo\<close> builds from a 2xx answer with a current block.\<close>

lemma getCurrentOpenMeteo_record:
  assumes "net_open_meteo_current net lat lon u = Resolved response"
    and "ok response" and "json response = Inr data" and "current_block data = Some current"
  shows "\<exists>w. fst (getCurrentOpenMeteo h net lat lon u) = Inr w
           \<and> temp (cw_main w) = temperature_2m current
           \<and> cw_weather w =
               [\<lparr>wc_id = Some (weathercode current),
                 wc_main = getWeatherMain (weathercode current),
                 wc_description = getOpenMeteoWeatherDescription h (Some (weathercode current)),
                 wc_icon = getOpenMeteoWeatherIcon h (Some (weathercode current))
                             (isOpenMeteoDayTime h (epoch_seconds (cur_time current)))\<rparr>]"
  using assms by (simp add: getCurrentOpenMeteo_def Let_def)

lemma map_zip_second:
  "length xs = length ys \<Longrightarrow> map (\<lambda>(x, y). f y) (zip xs ys) = map f ys"
  by (induction xs ys rule: list_induct2) auto

text \<open>The categories of the daily entries of a forecast come from the same table.\<close>

lemma normalizeForecast_categories:
  assumes "daily_block data = Some dly"
  shows "\<exists>fc. normalizeForecast h now data = Inr fc
           \<and> map (\<lambda>d. map wc_main (df_weather d)) (daily fc) =
               map (\<lambda>i. [getWeatherMain_undef (js_index (d_weathercode dly) i)])
                   [0..<length (d_time dly)]"
proof -
  have "map (\<lambda>d. map wc_main (df_weather d))
          (map (\<lambda>(time, index). dailyEntry h dly time index)
               (zip (d_time dly) [0..<length (d_time dly)])) =
        map (\<lambda>(time, index). [getWeatherMain_undef (js_index (d_weathercode dly) index)])
            (zip (d_time dly) [0..<length (d_time dly)])"
    by (simp add: dailyEntry_def Let_def case_prod_unfold)
  also have "\<dots> = map (\<lambda>i. [getWeatherMain_undef (js_index (d_weathercode dly) i)])
                      [0..<length (d_time dly)]"
    by (rule map_zip_second) simp
  finally show ?thesis
    using assms by (simp add: normalizeForecast_def)
qed

text \<open>
  Claim C5.  The category of a condition code comes from the table: every code listed in
  \<open>weatherMap\<close> yields its mapped category and every code absent from it yields
  \<open>''Unknown''\<close>.  Every 2xx answer with a current block converts to a record whose
  \<open>main.temp\<close> is the answer's \<open>temperature_2m\<close> and whose single weather entry holds
  the code, its category from the table, and the description and icon of the code; in
  particular an answer with \<open>temperature_2m = 15.2\<close> and \<open>weathercode = 3\<close> converts to a
  record with \<open>main.temp = 15.2\<close> and \<open>weather[0].main = ''Clear''\<close>.  The daily entries
  of a forecast take their categories from the same table.
\<close>

theorem condition_codes_table_driven:
  "(\<forall>(c, s)\<in>set weatherMap. getWeatherMain c = s)
   \<and> (c \<notin> fst ` set weatherMap \<longrightarrow> getWeatherMain c = ''Unknown'')
   \<and> (net_open_meteo_current net lat lon u = Resolved response \<and> ok response
        \<and> json response = Inr data \<and> current_block data = Some current
      \<longrightarrow> (\<exists>w. fst (getCurrentOpenMeteo h net lat lon u) = Inr w
                \<and> temp (cw_main w) = temperature_2m current
                \<and> cw_weather w =
                    [\<lparr>wc_id = Some (weathercode current),
                      wc_main = getWeatherMain (weathercode current),
                      wc_description = getOpenMeteoWeatherDescription h (Some (weathercode current)),
                      wc_icon = getOpenMeteoWeatherIcon h (Some (weathercode current))
                                  (isOpenMeteoDayTime h (epoch_seconds (cur_time current)))\<rparr>]
                \<and> (temperature_2m current = 15.2 \<and> weathercode current = 3
                     \<longrightarrow> temp (cw_main w) = 15.2 \<and> map wc_main (cw_weather w) = [''Clear''])))
   \<and> (daily_block data' = Some dly
      \<longrightarrow> (\<exists>fc. normalizeForecast h now data' = Inr fc
                \<and> map (\<lambda>d. map wc_main (df_weather d)) (daily fc) =
                    map (\<lambda>i. [getWeatherMain_undef (js_index (d_weathercode dly) i)])
                        [0..<length (d_time dly)]))"
proof (intro conjI)
  show "\<forall>(c, s)\<in>set weatherMap. getWeatherMain c = s"
    by (simp add: weatherMap_def getWeatherMain_def)
  show "c \<notin> fst ` set weatherMap \<longrightarrow> getWeatherMain c = ''Unknown''"
    using getWeatherMain_unlisted [of c] by blast
  show "net_open_meteo_current net lat lon u = Resolved response \<and> ok response
        \<and> json response = Inr data \<and> current_block data = Some current
      \<longrightarrow> (\<exists>w. fst (getCurrentOpenMeteo h net lat lon u) = Inr w
                \<and> temp (cw_main w) = temperature_2m current
                \<and> cw_weather w =
                    [\<lparr>wc_id = Some (weathercode current),
                      wc_main = getWeatherMain (weathercode current),
                      wc_description = getOpenMeteoWeatherDescription h (Some (weathercode current)),
                      wc_icon = getOpenMeteoWeatherIcon h (Some (weathercode current))
                                  (isOpenMeteoDayTime h (epoch_seconds (cur_time current)))\<rparr>]
                \<and> (temperature_2m current = 15.2 \<and> weathercode current = 3
                     \<longrightarrow> temp (cw_main w) = 15.2 \<and> map wc_main (cw_weather w) = [''Clear'']))"
  proof
    assume "net_open_meteo_current net lat lon u = Resolved response \<and> ok response
        \<and> json response = Inr data \<and> current_block data = Some current"
    then have pre: "net_open_meteo_current net lat lon u = Resolved response" "ok response"
        "json response = Inr data" "current_block data = Some current"
      by simp_all
    from getCurrentOpenMeteo_record [OF pre, of h] obtain w
      where w: "fst (getCurrentOpenMeteo h net lat lon u) = Inr w"
        "temp (cw_main w) = temperature_2m current"
        "cw_weather w =
           [\<lparr>wc_id = Some (weathercode current),
             wc_main = getWeatherMain (weathercode current),
             wc_description = getOpenMeteoWeatherDescription h (Some (weathercode current)),
             wc_icon = getOpenMeteoWeatherIcon h (Some (weathercode current))
                         (isOpenMeteoDayTime h (epoch_seconds (cur_time current)))\<rparr>]"
      by (elim exE conjE)
    have "temperature_2m current = 15.2 \<and> weathercode current = 3
            \<longrightarrow> temp (cw_main w) = 15.2 \<and> map wc_main (cw_weather w) = [''Clear'']"
      using w(2) w(3) getWeatherMain_3 by simp
    with w show "\<exists>w. fst (getCurrentOpenMeteo h net lat lon u) = Inr w
                \<and> temp (cw_main w) = temperature_2m current
                \<and> cw_weather w =
                    [\<lparr>wc_id = Some (weathercode current),
                      wc_main = getWeatherMain (weathercode current),
                      wc_description = getOpenMeteoWeatherDescription h (Some (weathercode current)),
                      wc_icon = getOpenMeteoWeatherIcon h (Some (weathercode current))
                                  (isOpenMeteoDayTime h (epoch_seconds (cur_time current)))\<rparr>]
                \<and> (temperature_2m current = 15.2 \<and> weathercode current = 3
                     \<longrightarrow> temp (cw_main w) = 15.2 \<and> map wc_main (cw_weather w) = [''Clear''])"
      by (intro exI [of _ w] conjI)
  qed
  show "daily_block data' = Some dly
      \<longrightarrow> (\<exists>fc. normalizeForecast h now data' = Inr fc
                \<and> map (\<lambda>d. map wc_main (df_weather d)) (daily fc) =
                    map (\<lambda>i. [getWeatherMain_undef (js_index (d_weathercode dly) i)])
                        [0..<length (d_time dly)])"
    using normalizeForecast_categories [of data' dly h now] by (intro impI)
qed

lemma foggy_current_weather:
  "getCurrentOpenMeteo example_host foggy_network (gp_lat london) (gp_lon london) Metric =
     (Inr foggy_weather, [OpenMeteoCurrent (gp_lat london) (gp_lon london) Metric])"
  apply (simp add: getCurrentOpenMeteo_def foggy_network_def london_network_def ok_def
      foggy_data_def london_data_def foggy_current_def epoch_seconds_def getWeatherMain_def
      weatherMap_def foggy_weather_def london_weather_def Let_def)
  apply (simp add: example_host_def two_decimals_def Let_def string_of_nat_0 string_of_nat_51
      digit_char_def)
  done

text \<open>
  At London the answer (15.2, code 3) becomes a record with 15.2 and \<open>''Clear''\<close>; the
  answer (20, code 45) becomes one with 20 and \<open>''Fog''\<close>; the forecast's one day has
  category \<open>''Clear''\<close>.
\<close>

theorem condition_codes_table_driven_witness:
  "getWeatherMain 0 = ''Clear'' \<and> getWeatherMain 45 = ''Fog'' \<and> getWeatherMain 57 = ''Drizzle''
   \<and> getWeatherMain 82 = ''Rain'' \<and> getWeatherMain 77 = ''Snow''
   \<and> getWeatherMain 99 = ''Thunderstorm''
   \<and> getWeatherMain 4 = ''Unknown'' \<and> getWeatherMain (-1) = ''Unknown''
   \<and> fst (getCurrentOpenMeteo example_host london_network (gp_lat london) (gp_lon london) Metric) =
       Inr london_weather
   \<and> temp (cw_main london_weather) = 15.2
   \<and> map wc_main (cw_weather london_weather) = [''Clear'']
   \<and> fst (getCurrentOpenMeteo example_host foggy_network (gp_lat london) (gp_lon london) Metric) =
       Inr foggy_weather
   \<and> temp (cw_main foggy_weather) = 20
   \<and> map wc_main (cw_weather foggy_weather) = [''Fog'']
   \<and> normalizeForecast example_host two_hours london_data = Inr london_forecast
   \<and> map (map wc_main \<circ> df_weather) (daily london_forecast) = [[''Clear'']]"
  using condition_codes_table_driven [of 4 london_network "gp_lat london" "gp_lon london" Metric
      "\<lparr>status = 200, statusText = ''OK'', json = Inr london_data\<rparr>" london_data london_current
      example_host london_data london_daily two_hours]
    condition_codes_table_driven [of "-1" foggy_network "gp_lat london" "gp_lon london" Metric
      "\<lparr>status = 200, statusText = ''OK'', json = Inr foggy_data\<rparr>" foggy_data foggy_current
      example_host london_data london_daily two_hours]
  by (simp add: weatherMap_def london_current_weather foggy_current_weather london_normalized
      london_weather_def foggy_weather_def london_forecast_def)

subsection \<open>Rounding to a double\<close>

lemma pow2_pos: "0 < pow2 e"
  by (simp add: pow2_def)

lemma pow2_powr: "pow2 e = 2 powr (of_int e)"
  by (simp add: pow2_def powr_real_of_int inverse_eq_divide)

lemma pow2_mono: "a \<le> b \<Longrightarrow> pow2 a \<le> pow2 b"
  by (simp add: pow2_powr)

lemma roundTiesToEven_error: "\<bar>of_int (roundTiesToEven y) - y\<bar> \<le> 1 / 2"
  by (auto simp: roundTiesToEven_def Let_def)

lemma binade_le:
  assumes "\<bar>x\<bar> < 2 ^ Suc n"
  shows "binade x \<le> int n"
proof (cases "1 \<le> \<bar>x\<bar>")
  case True
  have "\<lfloor>\<bar>x\<bar>\<rfloor> < 2 ^ Suc n"
    using assms by (simp add: floor_less_iff)
  then have "bitlen \<lfloor>\<bar>x\<bar>\<rfloor> \<le> int (Suc n)"
    using bitlen_le_iff_power [of "\<lfloor>\<bar>x\<bar>\<rfloor>" "int (Suc n)"]
    by (simp add: nat_add_distrib)
  with True show ?thesis by (simp add: binade_def)
next
  case False
  have "0 \<le> bitlen (\<lceil>1 / \<bar>x\<bar>\<rceil> - 1)" by (rule bitlen_nonneg)
  with False show ?thesis by (simp add: binade_def)
qed

text \<open>
  The rounding moves a result below \<open>2\<^sup>n\<^sup>+\<^sup>1\<close> by at most half a unit in the last place of
  that binade, \<open>2\<^sup>n / 2\<^sup>5\<^sup>3\<close>.
\<close>

lemma pow2_below_52: "pow2 (int n - 52) = 2 ^ n / 2 ^ 52"
proof -
  have "pow2 (int n - 52) = 2 powr (real n - 52)"
    by (simp add: pow2_powr)
  also have "\<dots> = 2 powr (real n) / 2 powr 52"
    by (simp add: powr_diff)
  also have "\<dots> = 2 ^ n / 2 ^ 52"
    by (simp add: powr_realpow)
  finally show ?thesis .
qed

lemma to_double_half_ulp:
  assumes "\<bar>x\<bar> < 2 ^ Suc n"
  shows "\<bar>to_double x - x\<bar> \<le> 2 ^ n / 2 ^ 53"
proof (cases "x = 0")
  case True
  then show ?thesis by (simp add: to_double_def)
next
  case False
  define e where "e = max (binade x - 52) (- 1074)"
  define p where "p = pow2 e"
  have "binade x \<le> int n" using assms by (rule binade_le)
  then have "e \<le> int n - 52" by (simp add: e_def)
  then have "p \<le> pow2 (int n - 52)" unfolding p_def by (rule pow2_mono)
  then have p_le: "p \<le> 2 ^ n / 2 ^ 52" by (simp only: pow2_below_52)
  have p_pos: "0 < p" by (simp add: p_def pow2_pos)
  have td: "to_double x = of_int (roundTiesToEven (x / p)) * p"
    using False by (simp add: to_double_def Let_def e_def p_def)
  have "to_double x - x = (of_int (roundTiesToEven (x / p)) - x / p) * p"
    using p_pos by (simp add: td field_simps)
  then have "\<bar>to_double x - x\<bar> = \<bar>of_int (roundTiesToEven (x / p)) - x / p\<bar> * p"
    using p_pos by (simp add: abs_mult)
  also have "\<dots> \<le> (1 / 2) * p"
    using roundTiesToEven_error [of "x / p"] p_pos by (intro mult_right_mono) simp_all
  also have "\<dots> \<le> (1 / 2) * (2 ^ n / 2 ^ 52)"
    using p_le by simp
  also have "\<dots> = 2 ^ n / 2 ^ 53" by simp
  finally show ?thesis .
qed

text \<open>\<open>binade\<close> is the exponent of the power of two at or below \<open>\<bar>x\<bar>\<close>.\<close>

lemma binade_bounds:
  assumes "x \<noteq> 0"
  shows "pow2 (binade x) \<le> \<bar>x\<bar> \<and> \<bar>x\<bar> < pow2 (binade x + 1)"
proof (cases "1 \<le> \<bar>x\<bar>")
  case True
  define n where "n = \<lfloor>\<bar>x\<bar>\<rfloor>"
  have npos: "0 < n" using True by (simp add: n_def)
  then have k: "1 \<le> bitlen n" by (simp add: bitlen_alt_def)
  have b: "binade x = bitlen n - 1" using True by (simp add: binade_def n_def)
  from bitlen_bounds [OF npos] have lo: "2 ^ nat (bitlen n - 1) \<le> n" and hi: "n < 2 ^ nat (bitlen n)"
    by simp_all
  have "2 ^ nat (bitlen n - 1) \<le> real_of_int n"
    using lo of_int_le_iff [of "2 ^ nat (bitlen n - 1)" n, where ?'a = real] by simp
  moreover have "real_of_int n \<le> \<bar>x\<bar>" by (simp add: n_def)
  ultimately have "2 ^ nat (bitlen n - 1) \<le> \<bar>x\<bar>" by linarith
  then have l: "pow2 (binade x) \<le> \<bar>x\<bar>" using k by (simp add: b pow2_def)
  have "n + 1 \<le> 2 ^ nat (bitlen n)" using hi by simp
  then have "real_of_int (n + 1) \<le> 2 ^ nat (bitlen n)"
    using of_int_le_iff [of "n + 1" "2 ^ nat (bitlen n)", where ?'a = real] by simp
  moreover have "\<bar>x\<bar> < real_of_int (n + 1)" unfolding n_def by linarith
  ultimately have "\<bar>x\<bar> < 2 ^ nat (bitlen n)" by linarith
  then have "\<bar>x\<bar> < pow2 (binade x + 1)" using k by (simp add: b pow2_def)
  with l show ?thesis by simp
next
  case False
  define m where "m = \<lceil>1 / \<bar>x\<bar>\<rceil>"
  define k where "k = bitlen (m - 1)"
  have xpos: "0 < \<bar>x\<bar>" using assms by simp
  have inv: "1 < 1 / \<bar>x\<bar>" using False xpos by simp
  then have m2: "2 \<le> m" unfolding m_def by linarith
  then have m1pos: "0 < m - 1" by simp
  then have k1: "1 \<le> k" by (simp add: k_def bitlen_alt_def)
  have b: "binade x = - k" using False by (simp add: binade_def m_def k_def)
  from bitlen_bounds [OF m1pos] have lo: "2 ^ nat (k - 1) \<le> m - 1" and hi: "m - 1 < 2 ^ nat k"
    by (simp_all add: k_def)
  have "m \<le> 2 ^ nat k" using hi by simp
  then have "real_of_int m \<le> 2 ^ nat k"
    using of_int_le_iff [of m "2 ^ nat k", where ?'a = real] by simp
  moreover have "1 / \<bar>x\<bar> \<le> real_of_int m" by (simp add: m_def)
  ultimately have "1 / \<bar>x\<bar> \<le> 2 ^ nat k" by linarith
  then have "1 \<le> 2 ^ nat k * \<bar>x\<bar>" using xpos by (simp add: field_simps)
  then have l: "pow2 (binade x) \<le> \<bar>x\<bar>" using k1 by (simp add: b pow2_def field_simps)
  have "2 ^ nat (k - 1) \<le> real_of_int (m - 1)"
    using lo of_int_le_iff [of "2 ^ nat (k - 1)" "m - 1", where ?'a = real] by simp
  moreover have "real_of_int (m - 1) < 1 / \<bar>x\<bar>" unfolding m_def by linarith
  ultimately have "2 ^ nat (k - 1) < 1 / \<bar>x\<bar>" by linarith
  then have u: "2 ^ nat (k - 1) * \<bar>x\<bar> < 1" using xpos by (simp add: field_simps)
  have "\<bar>x\<bar> < pow2 (binade x + 1)"
  proof (cases "k = 1")
    case True
    then show ?thesis using False by (simp add: b pow2_def)
  next
    case False
    with k1 have "nat (- (1 - k)) = nat (k - 1)" "\<not> 0 \<le> 1 - k" by simp_all
    then show ?thesis using u by (simp add: b pow2_def field_simps)
  qed
  with l show ?thesis by simp
qed

subsection \<open>Unit conversion\<close>

lemma to_double_close_34: "\<bar>x\<bar> \<le> 10000000000 \<Longrightarrow> \<bar>to_double x - x\<bar> \<le> 1 / 1048576"
  using to_double_half_ulp [of x 33] by simp

lemma to_double_close_31: "\<bar>x\<bar> \<le> 2000000000 \<Longrightarrow> \<bar>to_double x - x\<bar> \<le> 1 / 8388608"
  using to_double_half_ulp [of x 30] by simp

lemma to_double_close_30: "\<bar>x\<bar> \<le> 1070000000 \<Longrightarrow> \<bar>to_double x - x\<bar> \<le> 1 / 16777216"
  using to_double_half_ulp [of x 29] by simp

lemma celsiusToFahrenheit_close:
  assumes "\<bar>c\<bar> \<le> 1000000000"
  shows "\<bar>celsiusToFahrenheit c - (c * 9 / 5 + 32)\<bar> \<le> 1 / 2000000"
    and "\<bar>celsiusToFahrenheit c\<bar> \<le> 1900000000"
proof -
  define a1 where "a1 = to_double (c * 9)"
  define a2 where "a2 = to_double (a1 / 5)"
  define a3 where "a3 = to_double (a2 + 32)"
  have e1: "\<bar>a1 - c * 9\<bar> \<le> 1 / 1048576"
    unfolding a1_def using assms by (intro to_double_close_34) linarith
  have e2: "\<bar>a2 - a1 / 5\<bar> \<le> 1 / 8388608"
    unfolding a2_def using assms e1 by (intro to_double_close_31) linarith
  have e3: "\<bar>a3 - (a2 + 32)\<bar> \<le> 1 / 8388608"
    unfolding a3_def using assms e1 e2 by (intro to_double_close_31) linarith
  have a3: "celsiusToFahrenheit c = a3"
    by (simp add: celsiusToFahrenheit_def a1_def a2_def a3_def)
  show "\<bar>celsiusToFahrenheit c - (c * 9 / 5 + 32)\<bar> \<le> 1 / 2000000"
    unfolding a3 using e1 e2 e3 by linarith
  show "\<bar>celsiusToFahrenheit c\<bar> \<le> 1900000000"
    unfolding a3 using assms e1 e2 e3 by linarith
qed

lemma fahrenheitToCelsius_close:
  assumes "\<bar>f\<bar> \<le> 1900000000"
  shows "\<bar>fahrenheitToCelsius f - (f - 32) * 5 / 9\<bar> \<le> 1 / 4000000"
proof -
  define b1 where "b1 = to_double (f - 32)"
  define b2 where "b2 = to_double (b1 * 5)"
  define b3 where "b3 = to_double (b2 / 9)"
  have e1: "\<bar>b1 - (f - 32)\<bar> \<le> 1 / 8388608"
    unfolding b1_def using assms by (intro to_double_close_31) linarith
  have e2: "\<bar>b2 - b1 * 5\<bar> \<le> 1 / 1048576"
    unfolding b2_def using assms e1 by (intro to_double_close_34) linarith
  have e3: "\<bar>b3 - b2 / 9\<bar> \<le> 1 / 16777216"
    unfolding b3_def using assms e1 e2 by (intro to_double_close_30) linarith
  have b3: "fahrenheitToCelsius f = b3"
    by (simp add: fahrenheitToCelsius_def b1_def b2_def b3_def)
  have "(f - 32) * 5 / 9 = (5 / 9) * f - 160 / 9" by (simp add: field_simps)
  moreover have "b2 / 9 = (1 / 9) * b2" by simp
  ultimately show ?thesis
    unfolding b3 using e1 e2 e3 by linarith
qed

lemma round_trip_close:
  assumes "\<bar>t\<bar> \<le> 1000000000"
  shows "\<bar>fahrenheitToCelsius (celsiusToFahrenheit t) - t\<bar> \<le> 1 / 1000000"
proof -
  have "\<bar>fahrenheitToCelsius (celsiusToFahrenheit t) - (celsiusToFahrenheit t - 32) * 5 / 9\<bar>
          \<le> 1 / 4000000"
    using celsiusToFahrenheit_close(2) [OF assms] by (rule fahrenheitToCelsius_close)
  moreover have "\<bar>celsiusToFahrenheit t - (t * 9 / 5 + 32)\<bar> \<le> 1 / 2000000"
    using assms by (rule celsiusToFahrenheit_close(1))
  moreover have "(celsiusToFahrenheit t - 32) * 5 / 9 = (5 / 9) * celsiusToFahrenheit t - 160 / 9"
    by (simp add: field_simps)
  moreover have "t * 9 / 5 = (9 / 5) * t" by simp
  ultimately show ?thesis
    by linarith
qed

lemma convertDaily_same: "convertDaily d u u = d"
  by (simp add: convertDaily_def convertTemperature_def option.map_ident)

lemma convertForecast_same: "convertForecast fc u u = fc"
  by (simp add: convertForecast_def convertDaily_same convertTemperature_def)

lemma convertCurrentWeather_same: "convertCurrentWeather k w u u = w"
  by (simp add: convertCurrentWeather_def convertTemperature_def convertWindSpeed_def)

lemma convertForecast_daily:
  "map df_temp (daily (convertForecast fc fromUnits toUnits)) =
     map (\<lambda>d. \<lparr>temp_min = map_option (\<lambda>t. convertTemperature t fromUnits toUnits)
                               (temp_min (df_temp d)),
                 temp_max = map_option (\<lambda>t. convertTemperature t fromUnits toUnits)
                               (temp_max (df_temp d))\<rparr>)
         (daily fc)"
  by (simp add: convertForecast_def convertDaily_def)

lemma convertForecast_hourly:
  "map hd_temperature (hourly (convertForecast fc fromUnits toUnits)) =
     map (\<lambda>p. convertTemperature (hd_temperature p) fromUnits toUnits) (hourly fc)"
  by (simp add: convertForecast_def)

lemma big_temperature_round_trip:
  "fahrenheitToCelsius (celsiusToFahrenheit big_temperature) = 10 ^ 10 + 2 / 2 ^ 19"
  by code_simp

lemma big_temperature_is_double: "to_double big_temperature = big_temperature"
  by code_simp

text \<open>
  Claim C4, as amended.  In double arithmetic the conversion maps Celsius to Fahrenheit
  by \<^verbatim>\<open>c * 9 / 5 + 32\<close> and back by \<^verbatim>\<open>(f - 32) * 5 / 9\<close> (for magnitudes up to \<open>10\<^sup>9\<close>
  within \<open>10\<^sup>-\<^sup>6\<close> of the exact value), and wind speed by a fixed factor and back by the
  same factor.  A converted record has exactly these values in its temperature, feels-like
  and wind-speed fields, a converted forecast in its daily and hourly temperatures; the
  pressure is unchanged.  A conversion to the record's own unit returns the record, and
  the page returns the stored metric original untouched when the display unit is metric,
  its conversion otherwise.  For every temperature of magnitude up to \<open>10\<^sup>9\<close> the round
  trip metric, imperial, metric returns the original value within \<open>10\<^sup>-\<^sup>6\<close>.
\<close>

theorem unit_conversion_properties:
  "convertTemperature c Metric Imperial = to_double (to_double (to_double (c * 9) / 5) + 32)
   \<and> convertTemperature f Imperial Metric = to_double (to_double (to_double (f - 32) * 5) / 9)
   \<and> (\<bar>c\<bar> \<le> 10 ^ 9 \<longrightarrow> \<bar>convertTemperature c Metric Imperial - (c * 9 / 5 + 32)\<bar> \<le> 1 / 10 ^ 6)
   \<and> (\<bar>f\<bar> \<le> 10 ^ 9 \<longrightarrow> \<bar>convertTemperature f Imperial Metric - (f - 32) * 5 / 9\<bar> \<le> 1 / 10 ^ 6)
   \<and> convertWindSpeed k v Metric Imperial = to_double (v * k)
   \<and> convertWindSpeed k v Imperial Metric = to_double (v / k)
   \<and> temp (cw_main (convertCurrentWeather k w fromUnits toUnits)) =
       convertTemperature (temp (cw_main w)) fromUnits toUnits
   \<and> feels_like (cw_main (convertCurrentWeather k w fromUnits toUnits)) =
       convertTemperature (feels_like (cw_main w)) fromUnits toUnits
   \<and> speed (cw_wind (convertCurrentWeather k w fromUnits toUnits)) =
       convertWindSpeed k (speed (cw_wind w)) fromUnits toUnits
   \<and> pressure (cw_main (convertCurrentWeather k w fromUnits toUnits)) = pressure (cw_main w)
   \<and> map df_temp (daily (convertForecast fc fromUnits toUnits)) =
       map (\<lambda>d. \<lparr>temp_min = map_option (\<lambda>t. convertTemperature t fromUnits toUnits)
                                 (temp_min (df_temp d)),
                   temp_max = map_option (\<lambda>t. convertTemperature t fromUnits toUnits)
                                 (temp_max (df_temp d))\<rparr>)
           (daily fc)
   \<and> map hd_temperature (hourly (convertForecast fc fromUnits toUnits)) =
       map (\<lambda>p. convertTemperature (hd_temperature p) fromUnits toUnits) (hourly fc)
   \<and> convertCurrentWeather k w u u = w
   \<and> convertForecast fc u u = fc
   \<and> (originalCurrentWeather st = Some w \<and> display_units st = Metric
        \<longrightarrow> convertedCurrentWeather k st cw = Some w)
   \<and> (originalCurrentWeather st = Some w \<and> display_units st = Imperial
        \<longrightarrow> convertedCurrentWeather k st cw = Some (convertCurrentWeather k w Metric Imperial))
   \<and> (originalForecast st = Some fc \<and> display_units st = Metric
        \<longrightarrow> convertedForecastData st fd = Some fc)
   \<and> (originalForecast st = Some fc \<and> display_units st = Imperial
        \<longrightarrow> convertedForecastData st fd = Some (convertForecast fc Metric Imperial))
   \<and> (\<bar>t\<bar> \<le> 10 ^ 9
        \<longrightarrow> \<bar>convertTemperature (convertTemperature t Metric Imperial) Imperial Metric - t\<bar>
              \<le> 1 / 10 ^ 6)"
proof (intro conjI)
  show "\<bar>c\<bar> \<le> 10 ^ 9 \<longrightarrow> \<bar>convertTemperature c Metric Imperial - (c * 9 / 5 + 32)\<bar> \<le> 1 / 10 ^ 6"
  proof
    assume "\<bar>c\<bar> \<le> 10 ^ 9"
    then have "\<bar>celsiusToFahrenheit c - (c * 9 / 5 + 32)\<bar> \<le> 1 / 2000000"
      by (intro celsiusToFahrenheit_close(1)) simp
    then have "\<bar>celsiusToFahrenheit c - (c * 9 / 5 + 32)\<bar> \<le> 1 / 1000000" by linarith
    then show "\<bar>convertTemperature c Metric Imperial - (c * 9 / 5 + 32)\<bar> \<le> 1 / 10 ^ 6"
      by (simp add: convertTemperature_def)
  qed
  show "\<bar>f\<bar> \<le> 10 ^ 9 \<longrightarrow> \<bar>convertTemperature f Imperial Metric - (f - 32) * 5 / 9\<bar> \<le> 1 / 10 ^ 6"
  proof
    assume "\<bar>f\<bar> \<le> 10 ^ 9"
    then have "\<bar>fahrenheitToCelsius f - (f - 32) * 5 / 9\<bar> \<le> 1 / 4000000"
      by (intro fahrenheitToCelsius_close) simp
    then have "\<bar>fahrenheitToCelsius f - (f - 32) * 5 / 9\<bar> \<le> 1 / 1000000" by linarith
    then show "\<bar>convertTemperature f Imperial Metric - (f - 32) * 5 / 9\<bar> \<le> 1 / 10 ^ 6"
      by (simp add: convertTemperature_def)
  qed
  show "\<bar>t\<bar> \<le> 10 ^ 9
        \<longrightarrow> \<bar>convertTemperature (convertTemperature t Metric Imperial) Imperial Metric - t\<bar>
              \<le> 1 / 10 ^ 6"
  proof
    assume "\<bar>t\<bar> \<le> 10 ^ 9"
    then have "\<bar>fahrenheitToCelsius (celsiusToFahrenheit t) - t\<bar> \<le> 1 / 1000000"
      by (intro round_trip_close) simp
    then show "\<bar>convertTemperature (convertTemperature t Metric Imperial) Imperial Metric - t\<bar>
              \<le> 1 / 10 ^ 6"
      by (simp add: convertTemperature_def)
  qed
  show "map df_temp (daily (convertForecast fc fromUnits toUnits)) =
       map (\<lambda>d. \<lparr>temp_min = map_option (\<lambda>t. convertTemperature t fromUnits toUnits)
                                 (temp_min (df_temp d)),
                   temp_max = map_option (\<lambda>t. convertTemperature t fromUnits toUnits)
                                 (temp_max (df_temp d))\<rparr>)
           (daily fc)"
    by (rule convertForecast_daily)
  show "map hd_temperature (hourly (convertForecast fc fromUnits toUnits)) =
       map (\<lambda>p. convertTemperature (hd_temperature p) fromUnits toUnits) (hourly fc)"
    by (rule convertForecast_hourly)
qed (simp_all add: convertTemperature_def celsiusToFahrenheit_def fahrenheitToCelsius_def
       convertWindSpeed_def convertCurrentWeather_def convertCurrentWeather_same
       convertForecast_same convertedCurrentWeather_def convertedForecastData_def)

text \<open>
  At London: 15.2 degrees Celsius is shown as 59.36 Fahrenheit up to \<open>10\<^sup>-\<^sup>6\<close>, the round
  trip of 15.2 stays within \<open>10\<^sup>-\<^sup>6\<close>, and the page hands the metric original through.
\<close>

theorem unit_conversion_properties_witness:
  "\<bar>convertTemperature (temp (cw_main london_weather)) Metric Imperial - 59.36\<bar> \<le> 1 / 10 ^ 6
   \<and> \<bar>convertTemperature (convertTemperature (temp (cw_main london_weather)) Metric Imperial)
        Imperial Metric - 15.2\<bar> \<le> 1 / 10 ^ 6
   \<and> convertedCurrentWeather kmh_to_mph (london_metric\<lparr>originalCurrentWeather := Some london_weather\<rparr>)
        None = Some london_weather
   \<and> convertedCurrentWeather kmh_to_mph
        (london_imperial\<lparr>originalCurrentWeather := Some london_weather\<rparr>) None =
       Some (convertCurrentWeather kmh_to_mph london_weather Metric Imperial)
   \<and> pressure (cw_main (convertCurrentWeather kmh_to_mph london_weather Metric Imperial)) = 1013"
proof -
  have t: "temp (cw_main london_weather) = 15.2" and p: "pressure (cw_main london_weather) = 1013"
    by (simp_all add: london_weather_def)
  have small: "\<bar>temp (cw_main london_weather)\<bar> \<le> 10 ^ 9"
    by (simp add: t)
  have m: "originalCurrentWeather (london_metric\<lparr>originalCurrentWeather := Some london_weather\<rparr>) =
             Some london_weather
           \<and> display_units (london_metric\<lparr>originalCurrentWeather := Some london_weather\<rparr>) = Metric"
    by (simp add: london_metric_def)
  have i: "originalCurrentWeather (london_imperial\<lparr>originalCurrentWeather := Some london_weather\<rparr>) =
             Some london_weather
           \<and> display_units (london_imperial\<lparr>originalCurrentWeather := Some london_weather\<rparr>) = Imperial"
    by (simp add: london_imperial_def handleUnitsChange_def london_metric_def)
  note at_metric = unit_conversion_properties [of "temp (cw_main london_weather)" 0 kmh_to_mph 0
      london_weather Metric Imperial old_forecast Metric
      "london_metric\<lparr>originalCurrentWeather := Some london_weather\<rparr>" None None
      "temp (cw_main london_weather)"]
  note at_imperial = unit_conversion_properties [of "temp (cw_main london_weather)" 0 kmh_to_mph 0
      london_weather Metric Imperial old_forecast Metric
      "london_imperial\<lparr>originalCurrentWeather := Some london_weather\<rparr>" None None
      "temp (cw_main london_weather)"]
  have "\<bar>convertTemperature (temp (cw_main london_weather)) Metric Imperial
          - (temp (cw_main london_weather) * 9 / 5 + 32)\<bar> \<le> 1 / 10 ^ 6"
    using at_metric small by blast
  moreover have "temp (cw_main london_weather) * 9 / 5 + 32 = 59.36"
    by (simp add: t)
  ultimately have a: "\<bar>convertTemperature (temp (cw_main london_weather)) Metric Imperial - 59.36\<bar>
      \<le> 1 / 10 ^ 6"
    by (simp only:)
  have "\<bar>convertTemperature (convertTemperature (temp (cw_main london_weather)) Metric Imperial)
          Imperial Metric - temp (cw_main london_weather)\<bar> \<le> 1 / 10 ^ 6"
    using at_metric small by blast
  then have b: "\<bar>convertTemperature (convertTemperature (temp (cw_main london_weather)) Metric Imperial)
        Imperial Metric - 15.2\<bar> \<le> 1 / 10 ^ 6"
    by (simp only: t)
  have c: "convertedCurrentWeather kmh_to_mph
        (london_metric\<lparr>originalCurrentWeather := Some london_weather\<rparr>) None = Some london_weather"
    using at_metric m by blast
  have d: "convertedCurrentWeather kmh_to_mph
        (london_imperial\<lparr>originalCurrentWeather := Some london_weather\<rparr>) None =
       Some (convertCurrentWeather kmh_to_mph london_weather Metric Imperial)"
    using at_imperial i by blast
  have "pressure (cw_main (convertCurrentWeather kmh_to_mph london_weather Metric Imperial)) =
          pressure (cw_main london_weather)"
    using at_metric by blast
  then have e: "pressure (cw_main (convertCurrentWeather kmh_to_mph london_weather Metric Imperial)) = 1013"
    by (simp only: p)
  from a b c d e show ?thesis by (intro conjI)
qed

text \<open>
  Claim C4 as stated fails: the double \<open>10\<^sup>1\<^sup>0 + 3 / 2\<^sup>1\<^sup>9\<close> comes back from the round trip as
  \<open>10\<^sup>1\<^sup>0 + 2 / 2\<^sup>1\<^sup>9\<close>, more than \<open>10\<^sup>-\<^sup>6\<close> away.
\<close>

theorem round_trip_off_at_big_temperature:
  "to_double big_temperature = big_temperature
   \<and> convertTemperature (convertTemperature big_temperature Metric Imperial) Imperial Metric =
       10 ^ 10 + 2 / 2 ^ 19
   \<and> 1 / 10 ^ 6 <
       \<bar>convertTemperature (convertTemperature big_temperature Metric Imperial) Imperial Metric
          - big_temperature\<bar>"
  by (simp add: convertTemperature_def big_temperature_round_trip big_temperature_is_double)
     (simp add: big_temperature_def)

subsection \<open>Retry policy\<close>

lemma retry_client_error:
  "status_prop error = Some (JSNumber s) \<Longrightarrow> 400 \<le> s \<Longrightarrow> s < 500 \<Longrightarrow> \<not> retry failureCount error"
  by (simp add: retry_def)

lemma retry_other:
  "\<not> (\<exists>s. status_prop error = Some (JSNumber s) \<and> 400 \<le> s \<and> s < 500) \<Longrightarrow>
   retry failureCount error = (failureCount < 1)"
  by (auto simp: retry_def split: option.splits js_value.splits)

lemma retry_only_first: "retry failureCount error \<Longrightarrow> failureCount = 0"
  by (auto simp: retry_def split: option.splits js_value.splits if_splits)

lemma retry_new_Error: "retry failureCount (new_Error msg) = (failureCount < 1)"
  by (simp add: retry_def new_Error_def)

lemma retryDelay_formula: "retryDelay n = min (1000 * 2 ^ n) 30000"
  by (simp add: retryDelay_def)

lemma retryDelay_first: "retryDelay 0 = 1000"
  by (simp add: retryDelay_def)

lemma retryDelay_capped: "retryDelay n \<le> 30000"
  by (simp add: retryDelay_def)

lemma runQuery_after_first_failure:
  "runQuery queryFn (Suc n) = (queryFn (Suc n), [])"
  by (subst runQuery.simps) (auto split: sum.splits dest: retry_only_first)

lemma runQuery_at_most_one_retry: "length (snd (runQuery queryFn 0)) \<le> 1"
  by (subst runQuery.simps) (simp add: runQuery_after_first_failure split: sum.splits)

lemma runQuery_delays: "set (snd (runQuery queryFn 0)) \<subseteq> {retryDelay 0}"
  by (subst runQuery.simps) (simp add: runQuery_after_first_failure split: sum.splits)

lemma runQuery_client_error:
  "queryFn 0 = Inl error \<Longrightarrow> status_prop error = Some (JSNumber s) \<Longrightarrow> 400 \<le> s \<Longrightarrow> s < 500 \<Longrightarrow>
   runQuery queryFn 0 = (Inl error, [])"
  by (subst runQuery.simps) (simp add: retry_client_error)

lemma getCurrentOpenMeteo_not_ok_retried:
  assumes "net_open_meteo_current net lat lon u = Resolved response" and "\<not> ok response"
  shows "\<exists>error. fst (getCurrentOpenMeteo h net lat lon u) = Inl error
            \<and> status_prop error = None \<and> retry 0 error"
  using assms by (simp add: getCurrentOpenMeteo_def new_Error_def retry_def)

text \<open>
  The fallback sits inside the query function, so it is taken on the first failed attempt:
  with a recent snapshot the query succeeds with the cached forecast and is never retried.
\<close>

lemma runForecastQuery_serves_snapshot_at_once:
  "runForecastQuery default_config example_host offline_network snapshot_browser two_hours
     london_metric =
   (Inr (Some (old_forecast\<lparr>cached := Some True, cachedAt := Some (IsoString 0)\<rparr>)), [])"
proof -
  have "fst (getForecast default_config example_host offline_network snapshot_browser two_hours
          (gp_lat london) (gp_lon london) Metric) =
        Inr (old_forecast\<lparr>cached := Some True, cachedAt := Some (IsoString 0)\<rparr>)"
    using getForecast_open_meteo_fallback_examples by simp
  then have "fst (forecastQueryFn default_config example_host offline_network snapshot_browser
          two_hours london_metric) =
        Inr (Some (old_forecast\<lparr>cached := Some True, cachedAt := Some (IsoString 0)\<rparr>))"
    by (auto simp: forecastQueryFn_def london_metric_def snapshot_browser_def empty_browser_def
        split: prod.splits)
  then show ?thesis
    unfolding runForecastQuery_def by (subst runQuery.simps) simp
qed

lemma getForecast_not_found_retried:
  "fst (getForecast default_config example_host not_found_network empty_browser two_hours
          (gp_lat london) (gp_lon london) Metric)
     = Inl (new_Error ''Failed to fetch forecast: 404 Not Found'')
   \<and> retry 0 (new_Error ''Failed to fetch forecast: 404 Not Found'')"
  by (simp add: getForecast_def default_config_def forecastTry_def not_found_network_def
      not_found_def ok_def string_of_int_404 forecastCatch_def getSnapshot_empty_browser
      retry_new_Error)

text \<open>
  Claim C2 against the code.  The \<open>retry\<close> callback refuses an error whose \<^verbatim>\<open>status\<close>
  property is a number from 400 up to 500 (\<open>retry_client_error\<close>), retries anything else
  at most once (\<open>runQuery_at_most_one_retry\<close>), after \<open>min (1000 * 2 ^ n) 30000\<close>
  milliseconds (\<open>retryDelay_formula\<close>).  But the errors \<^verbatim>\<open>api.ts\<close> throws for a response
  that is not 2xx are plain \<^verbatim>\<open>Error\<close> objects with no \<^verbatim>\<open>status\<close> property, so a 404 from
  the provider is not recognised as a client error: the query is retried once, after
  1000 ms.
\<close>

theorem provider_404_is_retried:
  "fst (getCurrent default_config example_host not_found_network (gp_lat london) (gp_lon london) Metric)
     = Inl (new_Error ''Failed to fetch current weather: 404 Not Found'')
   \<and> status_prop (new_Error ''Failed to fetch current weather: 404 Not Found'') = None
   \<and> retry 0 (new_Error ''Failed to fetch current weather: 404 Not Found'')
   \<and> runCurrentQuery default_config example_host not_found_network True london_metric
     = (Inl (new_Error ''Failed to fetch current weather: 404 Not Found''), [1000])"
proof -
  have g: "fst (getCurrent default_config example_host not_found_network (gp_lat london) (gp_lon london) Metric)
     = Inl (new_Error ''Failed to fetch current weather: 404 Not Found'')"
    by (simp add: getCurrent_def default_config_def getCurrentOpenMeteo_def not_found_network_def
        not_found_def ok_def string_of_int_404)
  then have q: "fst (currentQueryFn default_config example_host not_found_network True london_metric)
     = Inl (new_Error ''Failed to fetch current weather: 404 Not Found'')"
    by (auto simp: currentQueryFn_def london_metric_def split: prod.splits)
  have "runCurrentQuery default_config example_host not_found_network True london_metric
     = (Inl (new_Error ''Failed to fetch current weather: 404 Not Found''), [1000])"
    unfolding runCurrentQuery_def
    by (subst runQuery.simps)
       (simp add: q retry_new_Error runQuery_after_first_failure retryDelay_first)
  with g show ?thesis
    by (simp add: retry_new_Error) (simp add: new_Error_def)
qed

subsection \<open>Query keys and the display unit\<close>

lemma toggle_keeps_query_keys:
  "currentQueryKey (fst (handleUnitsChange st newUnits)) = currentQueryKey st
   \<and> forecastQueryKey (fst (handleUnitsChange st newUnits)) = forecastQueryKey st
   \<and> snd (handleUnitsChange st newUnits) = []"
  by (simp add: handleUnitsChange_def currentQueryKey_def forecastQueryKey_def)

lemma query_keys_are_metric:
  "key_units (currentQueryKey st) \<noteq> Some Imperial \<and> key_units (forecastQueryKey st) \<noteq> Some Imperial"
  by (simp add: currentQueryKey_def forecastQueryKey_def key_units_def queryKeys_current_def
      queryKeys_forecast_def split: option.splits)

lemma handleRetry_key_units:
  "k \<in> set (handleRetry st) \<Longrightarrow> key_units k = Some (display_units st)"
  by (auto simp: handleRetry_def key_units_def queryKeys_current_def queryKeys_forecast_def
      split: option.splits)

text \<open>
  Claim C3 against the code.  Lookup and store use keys whose unit component is metric
  whatever the display unit (\<open>query_keys_are_metric\<close>), and a unit toggle changes no query
  key and issues no request (\<open>toggle_keeps_query_keys\<close>).  The explicit invalidation of
  \<open>handleRetry\<close>, however, builds its keys from the display unit: with the display unit
  imperial it invalidates keys that are not the keys of the two queries.
\<close>

theorem handleRetry_keys_follow_display_unit:
  "display_units london_imperial = Imperial
   \<and> currentQueryKey london_imperial = QueryKey ''current'' (gp_lat london) (gp_lon london) Metric
   \<and> forecastQueryKey london_imperial = QueryKey ''forecast'' (gp_lat london) (gp_lon london) Metric
   \<and> handleRetry london_imperial =
       [QueryKey ''current'' (gp_lat london) (gp_lon london) Imperial,
        QueryKey ''forecast'' (gp_lat london) (gp_lon london) Imperial]
   \<and> map key_units (handleRetry london_imperial) = [Some Imperial, Some Imperial]
   \<and> currentQueryKey london_imperial \<notin> set (handleRetry london_imperial)
   \<and> forecastQueryKey london_imperial \<notin> set (handleRetry london_imperial)"
  by (simp add: london_imperial_def handleUnitsChange_def london_metric_def currentQueryKey_def
      forecastQueryKey_def handleRetry_def queryKeys_current_def queryKeys_forecast_def key_units_def)

end
